theory Spec2Isabelle
  imports Complex_Main "HOL-Library.Word"
begin

section \<open>Python values used by the parser service\<close>

text \<open>
  A Python \<open>str\<close> is a sequence of Unicode code points, so it is modelled as a list of
  natural numbers; \<open>bytes\<close> is a list of 8-bit words. Literals of the source are written
  \<open>u ''...''\<close>.
\<close>

type_synonym str = "nat list"
type_synonym bytes = "8 word list"

definition u :: "string \<Rightarrow> str" where
  "u s = map of_char s"

datatype py_exception =
    UnicodeEncodeError
  | ImportError
  | ValueError str
  | BackendError str
  | ParserRejectedMarkup
  | UnicodeDecodeError

text \<open>\<open>str.isspace\<close> of one character (CPython 3.11, Unicode 14).\<close>

definition isspace :: "nat \<Rightarrow> bool" where
  "isspace c \<longleftrightarrow>
     (9 \<le> c \<and> c \<le> 13) \<or> (28 \<le> c \<and> c \<le> 32) \<or> c = 133 \<or> c = 160 \<or> c = 5760 \<or>
     (8192 \<le> c \<and> c \<le> 8202) \<or> c = 8232 \<or> c = 8233 \<or> c = 8239 \<or> c = 8287 \<or> c = 12288"

text \<open>
  \<open>str.isdigit\<close> of one character: the code points whose Numeric_Type is Digit or
  Decimal (CPython 3.11, Unicode 14), as inclusive ranges.
\<close>

definition digit_ranges :: "(nat \<times> nat) list" where
  "digit_ranges =
    [(48, 57), (178, 179), (185, 185), (1632, 1641), (1776, 1785), (1984, 1993),
     (2406, 2415), (2534, 2543), (2662, 2671), (2790, 2799), (2918, 2927), (3046, 3055),
     (3174, 3183), (3302, 3311), (3430, 3439), (3558, 3567), (3664, 3673), (3792, 3801),
     (3872, 3881), (4160, 4169), (4240, 4249), (4969, 4977), (6112, 6121), (6160, 6169),
     (6470, 6479), (6608, 6618), (6784, 6793), (6800, 6809), (6992, 7001), (7088, 7097),
     (7232, 7241), (7248, 7257), (8304, 8304), (8308, 8313), (8320, 8329), (9312, 9320),
     (9332, 9340), (9352, 9360), (9450, 9450), (9461, 9469), (9471, 9471), (10102, 10110),
     (10112, 10120), (10122, 10130), (42528, 42537), (43216, 43225), (43264, 43273),
     (43472, 43481), (43504, 43513), (43600, 43609), (44016, 44025), (65296, 65305),
     (66720, 66729), (68160, 68163), (68912, 68921), (69216, 69224), (69714, 69722),
     (69734, 69743), (69872, 69881), (69942, 69951), (70096, 70105), (70384, 70393),
     (70736, 70745), (70864, 70873), (71248, 71257), (71360, 71369), (71472, 71481),
     (71904, 71913), (72016, 72025), (72784, 72793), (73040, 73049), (73120, 73129),
     (92768, 92777), (92864, 92873), (93008, 93017), (120782, 120831), (123200, 123209),
     (123632, 123641), (125264, 125273), (127232, 127242), (130032, 130041)]"

definition isdigit :: "nat \<Rightarrow> bool" where
  "isdigit c = list_ex (\<lambda>(lo, hi). lo \<le> c \<and> c \<le> hi) digit_ranges"

text \<open>\<open>s.strip()\<close>, \<open>s.lstrip(chars)\<close>, \<open>s.startswith(p)\<close>, \<open>sub in s\<close>, \<open>sep.join(xs)\<close>.\<close>

definition lstrip :: "str \<Rightarrow> str" where
  "lstrip s = dropWhile isspace s"

definition rstrip :: "str \<Rightarrow> str" where
  "rstrip s = rev (dropWhile isspace (rev s))"

definition strip :: "str \<Rightarrow> str" where
  "strip s = rstrip (lstrip s)"

definition lstrip_chars :: "str \<Rightarrow> str \<Rightarrow> str" where
  "lstrip_chars chars s = dropWhile (\<lambda>c. c \<in> set chars) s"

definition startswith :: "str \<Rightarrow> str \<Rightarrow> bool" where
  "startswith s p \<longleftrightarrow> take (length p) s = p"

fun contains :: "str \<Rightarrow> str \<Rightarrow> bool" where
  "contains sub [] \<longleftrightarrow> sub = []"
| "contains sub (c # cs) \<longleftrightarrow> startswith (c # cs) sub \<or> contains sub cs"

fun str_join :: "str \<Rightarrow> str list \<Rightarrow> str" where
  "str_join sep [] = []"
| "str_join sep [x] = x"
| "str_join sep (x # y # ys) = x @ sep @ str_join sep (y # ys)"

text \<open>
  \<open>s.split(sep)\<close> for a non-empty separator: a left-to-right scan for non-overlapping
  occurrences; \<open>cur\<close> is the segment read so far. (Python raises ValueError for an empty
  separator; the source only splits on \<open>'\n'\<close> and \<open>'\n\n'\<close>.)
\<close>

function split_from :: "str \<Rightarrow> str \<Rightarrow> str \<Rightarrow> str list" where
  "split_from sep cur [] = [cur]"
| "split_from sep cur (c # cs) =
     (if sep \<noteq> [] \<and> startswith (c # cs) sep
      then cur # split_from sep [] (drop (length sep) (c # cs))
      else split_from sep (cur @ [c]) cs)"
  by pat_completeness auto
termination
  by (relation "measure (\<lambda>(sep, cur, s). length s)") auto

definition py_split :: "str \<Rightarrow> str \<Rightarrow> str list" where
  "py_split s sep = split_from sep [] s"

text \<open>\<open>str(n)\<close> for an integer: its decimal digits.\<close>

fun str_of_nat :: "nat \<Rightarrow> str" where
  "str_of_nat n = (if n < 10 then [48 + n] else str_of_nat (n div 10) @ [48 + n mod 10])"

declare str_of_nat.simps [simp del]

definition str_of_int :: "int \<Rightarrow> str" where
  "str_of_int i = (if i < 0 then 45 # str_of_nat (nat (- i)) else str_of_nat (nat i))"

text \<open>\<open>int(x)\<close> for a float: truncation towards zero.\<close>

definition int_of_float :: "rat \<Rightarrow> int" where
  "int_of_float x = (if 0 \<le> x then \<lfloor>x\<rfloor> else \<lceil>x\<rceil>)"

text \<open>
  \<open>s.encode()\<close>: UTF-8. Python refuses to encode a surrogate code point
  (UnicodeEncodeError); code points above U+10FFFF do not occur in a \<open>str\<close>.
\<close>

definition encode_char :: "nat \<Rightarrow> py_exception + bytes" where
  "encode_char c =
     (if c < 128 then Inr [of_nat c]
      else if c < 2048 then Inr [of_nat (192 + c div 64), of_nat (128 + c mod 64)]
      else if 55296 \<le> c \<and> c \<le> 57343 then Inl UnicodeEncodeError
      else if c < 65536 then
        Inr [of_nat (224 + c div 4096), of_nat (128 + c div 64 mod 64), of_nat (128 + c mod 64)]
      else if c < 1114112 then
        Inr [of_nat (240 + c div 262144), of_nat (128 + c div 4096 mod 64),
             of_nat (128 + c div 64 mod 64), of_nat (128 + c mod 64)]
      else Inl UnicodeEncodeError)"

fun encode :: "str \<Rightarrow> py_exception + bytes" where
  "encode [] = Inr []"
| "encode (c # cs) =
     (case encode_char c of
        Inl e \<Rightarrow> Inl e
      | Inr b \<Rightarrow> (case encode cs of Inl e \<Rightarrow> Inl e | Inr bs \<Rightarrow> Inr (b @ bs)))"

section \<open>The canonical document model\<close>

record TableCell =
  cell_content :: str
  row :: int
  col :: int
  rowSpan :: int
  colSpan :: int
  isHeader :: bool

record TableStructure =
  rows :: int
  cols :: int
  headers :: "str list"
  cells :: "TableCell list"
  markdown :: str
  hasHeader :: bool

record ImageMetadata =
  src :: "str option"
  alt :: "str option"
  width :: "int option"
  height :: "int option"

record ContentBlock =
  type :: str
  content :: str
  pageNumber :: "int option"
  position :: int
  headingLevel :: "int option"
  listType :: "str option"
  listItems :: "str list option"
  table :: "TableStructure option"
  codeLanguage :: "str option"
  image :: "ImageMetadata option"
  confidence :: "rat option"

datatype DocumentOutlineItem =
  DocumentOutlineItem (title: str) (level: int) (outline_pageNumber: "int option")
    (outline_position: int) (children: "DocumentOutlineItem list")

text \<open>
  The metadata without \<open>parsingDurationMs\<close>, a difference of two wall-clock floats.
\<close>

record DocumentParseMetadata =
  filename :: str
  format :: str
  fileSize :: int
  pageCount :: int
  meta_title :: "str option"
  author :: "str option"
  createdDate :: "str option"
  modifiedDate :: "str option"
  parser :: str
  parserVersion :: "str option"

record ParsingWarning =
  code :: str
  message :: str
  warning_pageNumber :: "int option"
  warning_position :: "int option"
  severity :: str

record ParsedDocument =
  documentId :: str
  metadata :: DocumentParseMetadata
  blocks :: "ContentBlock list"
  fullText :: str
  outline :: "DocumentOutlineItem list"
  warnings :: "ParsingWarning list"
  success :: bool

text \<open>The constructors with the defaults of the pydantic models.\<close>

definition new_block :: "str \<Rightarrow> str \<Rightarrow> int \<Rightarrow> ContentBlock" where
  "new_block t c p =
     \<lparr>type = t, content = c, pageNumber = None, position = p, headingLevel = None,
      listType = None, listItems = None, table = None, codeLanguage = None, image = None,
      confidence = None\<rparr>"

definition new_metadata :: "str \<Rightarrow> str \<Rightarrow> int \<Rightarrow> int \<Rightarrow> str \<Rightarrow> DocumentParseMetadata" where
  "new_metadata fname fmt fsize pages prs =
     \<lparr>filename = fname, format = fmt, fileSize = fsize, pageCount = pages, meta_title = None,
      author = None, createdDate = None, modifiedDate = None, parser = prs,
      parserVersion = None\<rparr>"

section \<open>What the service reads from outside\<close>

text \<open>
  \<open>time_time\<close> is the reading of \<open>time.time()\<close> taken when the document identifier is
  built, \<open>sha256_hexdigest\<close> is hashlib's SHA-256 as a hexadecimal string.
\<close>

record env =
  time_time :: rat
  sha256_hexdigest :: "bytes \<Rightarrow> str"

text \<open>A hashlib hasher holds the bytes fed to it so far.\<close>

definition hasher_update :: "bytes \<Rightarrow> bytes \<Rightarrow> bytes" where
  "hasher_update hasher data = hasher @ data"

definition generate_document_id :: "env \<Rightarrow> bytes \<Rightarrow> str \<Rightarrow> py_exception + str" where
  "generate_document_id e content_bytes fname =
     (let hasher = hasher_update [] content_bytes in
      case encode fname of
        Inl err \<Rightarrow> Inl err
      | Inr fb \<Rightarrow>
          (let hasher = hasher_update hasher fb in
           Inr (u ''doc_'' @ str_of_int (int_of_float (time_time e)) @ u ''_''
                @ take 12 (sha256_hexdigest e hasher))))"

section \<open>Markdown normalizer\<close>

text \<open>The loop variables of \<open>parse_markdown_content\<close>.\<close>

record md_state =
  md_blocks :: "ContentBlock list"
  md_position :: int
  md_outline :: "DocumentOutlineItem list"
  current_paragraph :: "str list"

definition md_init :: md_state where
  "md_init = \<lparr>md_blocks = [], md_position = 0, md_outline = [], current_paragraph = []\<rparr>"

text \<open>The paragraph flush that opens every branch but the paragraph one.\<close>

definition flush :: "md_state \<Rightarrow> md_state" where
  "flush s =
     (if current_paragraph s \<noteq> [] then
        (let para_text = strip (str_join (u ''\<newline>'') (current_paragraph s));
             s' = (if para_text \<noteq> [] then
                     s\<lparr>md_blocks := md_blocks s @
                          [(new_block (u ''paragraph'') para_text (md_position s))
                             \<lparr>pageNumber := Some 1\<rparr>],
                       md_position := md_position s + 1\<rparr>
                   else s)
         in s'\<lparr>current_paragraph := []\<rparr>)
      else s)"

definition heading_level :: "str \<Rightarrow> int" where
  "heading_level line = min (int (length line) - int (length (lstrip_chars (u ''#'') line))) 6"

definition is_list_line :: "str \<Rightarrow> bool" where
  "is_list_line line \<longleftrightarrow>
     startswith (strip line) (u ''- '') \<or> startswith (strip line) (u ''* '') \<or>
     startswith (strip line) (u ''+ '') \<or>
     (case strip line of [] \<Rightarrow> False | c # _ \<Rightarrow> isdigit c \<and> contains (u ''. '') (take 4 line))"

definition md_line :: "md_state \<Rightarrow> str \<Rightarrow> md_state" where
  "md_line s line =
     (if startswith line (u ''#'') then
        (let s1 = flush s;
             lvl = heading_level line;
             heading_text = strip (lstrip_chars (u ''#'') line)
         in s1\<lparr>md_blocks := md_blocks s1 @
                  [(new_block (u ''heading'') heading_text (md_position s1))
                     \<lparr>headingLevel := Some lvl, pageNumber := Some 1\<rparr>],
               md_outline := md_outline s1 @
                  [DocumentOutlineItem heading_text lvl (Some 1) (md_position s1) []],
               md_position := md_position s1 + 1\<rparr>)
      else if startswith line (u ''```'') then
        (let s1 = flush s;
             lang = (if strip (drop 3 line) = [] then None else Some (strip (drop 3 line)))
         in s1\<lparr>md_blocks := md_blocks s1 @
                  [(new_block (u ''code'') [] (md_position s1))
                     \<lparr>codeLanguage := lang, pageNumber := Some 1\<rparr>],
               md_position := md_position s1 + 1\<rparr>)
      else if is_list_line line then
        (let s1 = flush s;
             list_type = (case strip line of
                            [] \<Rightarrow> u ''unordered''
                          | c # _ \<Rightarrow> if isdigit c then u ''ordered'' else u ''unordered'');
             item_text = strip (lstrip_chars (u ''-*+0123456789. '') (strip line))
         in s1\<lparr>md_blocks := md_blocks s1 @
                  [(new_block (u ''list'') item_text (md_position s1))
                     \<lparr>listType := Some list_type, listItems := Some [item_text],
                      pageNumber := Some 1\<rparr>],
               md_position := md_position s1 + 1\<rparr>)
      else if strip line \<noteq> [] then
        s\<lparr>current_paragraph := current_paragraph s @ [line]\<rparr>
      else flush s)"

text \<open>
  The blocks after the loop: the remaining paragraph is appended, the counter is not
  advanced any more.
\<close>

definition md_final_blocks :: "md_state \<Rightarrow> ContentBlock list" where
  "md_final_blocks s =
     (if current_paragraph s \<noteq> [] \<and> strip (str_join (u ''\<newline>'') (current_paragraph s)) \<noteq> []
      then md_blocks s @
           [(new_block (u ''paragraph'') (strip (str_join (u ''\<newline>'') (current_paragraph s)))
               (md_position s))\<lparr>pageNumber := Some 1\<rparr>]
      else md_blocks s)"

definition parse_markdown_content :: "env \<Rightarrow> str \<Rightarrow> str \<Rightarrow> py_exception + ParsedDocument" where
  "parse_markdown_content e content_str fname =
     (let lines = py_split content_str (u ''\<newline>'');
          s = foldl md_line md_init lines;
          final_blocks = md_final_blocks s
      in case encode content_str of
           Inl err \<Rightarrow> Inl err
         | Inr cb \<Rightarrow>
             (case generate_document_id e cb fname of
                Inl err \<Rightarrow> Inl err
              | Inr doc_id \<Rightarrow>
                  Inr \<lparr>documentId = doc_id,
                       metadata = new_metadata fname (u ''md'') (int (length cb)) 1 (u ''native-md''),
                       blocks = final_blocks,
                       fullText = content_str,
                       outline = md_outline s,
                       warnings = [],
                       success = True\<rparr>))"

section \<open>Plain-text normalizer\<close>

text \<open>One turn of the loop of \<open>parse_txt_content\<close> over \<open>(blocks, position)\<close>.\<close>

definition txt_para :: "ContentBlock list \<times> int \<Rightarrow> str \<Rightarrow> ContentBlock list \<times> int" where
  "txt_para st para =
     (let para_text = strip para in
      if para_text \<noteq> [] then
        (fst st @ [(new_block (u ''paragraph'') para_text (snd st))\<lparr>pageNumber := Some 1\<rparr>],
         snd st + 1)
      else st)"

definition parse_txt_content :: "env \<Rightarrow> str \<Rightarrow> str \<Rightarrow> py_exception + ParsedDocument" where
  "parse_txt_content e content_str fname =
     (let paragraphs = py_split content_str (u ''\<newline>\<newline>'');
          st = foldl txt_para ([], 0) paragraphs
      in case encode content_str of
           Inl err \<Rightarrow> Inl err
         | Inr cb \<Rightarrow>
             (case generate_document_id e cb fname of
                Inl err \<Rightarrow> Inl err
              | Inr doc_id \<Rightarrow>
                  Inr \<lparr>documentId = doc_id,
                       metadata = new_metadata fname (u ''txt'') (int (length cb)) 1 (u ''native-txt''),
                       blocks = fst st,
                       fullText = content_str,
                       outline = [],
                       warnings = [],
                       success = True\<rparr>))"

section \<open>HTML normalizer\<close>

text \<open>
  The tree that \<open>BeautifulSoup(content, 'html.parser')\<close> builds: a text node (a string
  that \<open>get_text\<close> collects), or a tag with its name, the value of \<open>get('class')\<close> (the
  list of class tokens, \<open>None\<close> without a class attribute) and its contents. The soup
  itself is the tag \<open>[document]\<close>.
\<close>

datatype node = Text str | Tag str "str list option" "node list"

fun tag_name :: "node \<Rightarrow> str" where
  "tag_name (Tag n c kids) = n"
| "tag_name (Text s) = []"

fun tag_class :: "node \<Rightarrow> str list option" where
  "tag_class (Tag n c kids) = c"
| "tag_class (Text s) = None"

fun contents :: "node \<Rightarrow> node list" where
  "contents (Tag n c kids) = kids"
| "contents (Text s) = []"

fun descendants :: "node \<Rightarrow> node list" where
  "descendants (Text s) = []"
| "descendants (Tag n c kids) = concat (map (\<lambda>k. k # descendants k) kids)"

fun strings :: "node \<Rightarrow> str list" where
  "strings (Text s) = [s]"
| "strings (Tag n c kids) = concat (map strings kids)"

text \<open>\<open>el.get_text()\<close> and \<open>el.get_text(separator=sep)\<close>.\<close>

definition get_text :: "node \<Rightarrow> str" where
  "get_text el = concat (strings el)"

definition get_text_sep :: "str \<Rightarrow> node \<Rightarrow> str" where
  "get_text_sep sep el = str_join sep (strings el)"

fun is_named :: "str list \<Rightarrow> node \<Rightarrow> bool" where
  "is_named names (Tag n c kids) \<longleftrightarrow> n \<in> set names"
| "is_named names (Text s) \<longleftrightarrow> False"

text \<open>
  \<open>el.find_all(names)\<close>: the matching tags below \<open>el\<close> in document order;
  \<open>el.find_all(names, recursive=False)\<close>: the matching children; \<open>el.find(name)\<close>: the
  first match.
\<close>

definition find_all :: "str list \<Rightarrow> node \<Rightarrow> node list" where
  "find_all names el = filter (is_named names) (descendants el)"

definition find_all_children :: "str list \<Rightarrow> node \<Rightarrow> node list" where
  "find_all_children names el = filter (is_named names) (contents el)"

definition find :: "str \<Rightarrow> node \<Rightarrow> node option" where
  "find n el = (case find_all [n] el of [] \<Rightarrow> None | k # _ \<Rightarrow> Some k)"

text \<open>
  \<open>s.lower()\<close>, exact wherever the result has an ASCII character: ASCII letters, the
  Kelvin sign (to \<open>k\<close>) and the dotted capital I (to \<open>i\<close> and a combining dot). Every other
  character has a lowercase without ASCII characters and is left as it is; the source only
  compares lowercased strings with ASCII keys.
\<close>

definition lower_char :: "nat \<Rightarrow> str" where
  "lower_char c =
     (if 65 \<le> c \<and> c \<le> 90 then [c + 32]
      else if c = 8490 then [107]
      else if c = 304 then [105, 775]
      else [c])"

definition lower :: "str \<Rightarrow> str" where
  "lower s = concat (map lower_char s)"

text \<open>
  \<open>int(c)\<close> for the one-character string after the \<open>h\<close> of a tag name: exact for ASCII
  digits, the only case that \<open>find_all\<close> lets through.
\<close>

definition int_of_char :: "nat \<Rightarrow> py_exception + int" where
  "int_of_char c = (if 48 \<le> c \<and> c \<le> 57 then Inr (int c - 48) else Inl (ValueError [c]))"

text \<open>A loop whose body may raise stops at the first exception.\<close>

fun fold_exc :: "('s \<Rightarrow> 'a \<Rightarrow> 'e + 's) \<Rightarrow> 's \<Rightarrow> 'a list \<Rightarrow> 'e + 's" where
  "fold_exc f s [] = Inr s"
| "fold_exc f s (x # xs) = (case f s x of Inl err \<Rightarrow> Inl err | Inr s' \<Rightarrow> fold_exc f s' xs)"

record html_state =
  html_blocks :: "ContentBlock list"
  html_position :: int
  html_outline :: "DocumentOutlineItem list"

text \<open>
  The two nested loops over the rows of a table and the cells of a row, on the pair
  \<open>(headers, cells)\<close>.
\<close>

definition html_cell :: "nat \<Rightarrow> str list \<times> TableCell list \<Rightarrow> nat \<times> node \<Rightarrow> str list \<times> TableCell list" where
  "html_cell row_idx acc ic =
     (let cell_text = strip (get_text (snd ic));
          is_header = (tag_name (snd ic) = u ''th'' \<or> row_idx = 0)
      in ((if is_header \<and> row_idx = 0 then fst acc @ [cell_text] else fst acc),
          snd acc @ [\<lparr>cell_content = cell_text, row = int row_idx, col = int (fst ic),
                      rowSpan = 1, colSpan = 1, isHeader = is_header\<rparr>]))"

definition html_row :: "str list \<times> TableCell list \<Rightarrow> nat \<times> node \<Rightarrow> str list \<times> TableCell list" where
  "html_row acc ir =
     foldl (html_cell (fst ir)) acc (enumerate 0 (find_all [u ''th'', u ''td''] (snd ir)))"

definition md_row :: "str list \<Rightarrow> str" where
  "md_row xs = u ''| '' @ str_join (u '' | '') xs @ u '' |''"

definition html_md_line :: "TableCell list \<Rightarrow> str list \<Rightarrow> nat \<Rightarrow> str list" where
  "html_md_line cs md_lines row_idx =
     (let row_cells = map cell_content (filter (\<lambda>c. row c = int row_idx) cs)
      in if row_cells \<noteq> [] then md_lines @ [md_row row_cells] else md_lines)"

text \<open>The table structure built for a \<open>table\<close> element with the rows \<open>trs\<close>.\<close>

definition html_table :: "node list \<Rightarrow> TableStructure" where
  "html_table trs =
     (let hc = foldl html_row ([], []) (enumerate 0 trs);
          hdrs = fst hc;
          cs = snd hc;
          md_lines0 = (if hdrs \<noteq> []
                       then [md_row hdrs, md_row (replicate (length hdrs) (u ''---''))]
                       else []);
          md_lines = foldl (html_md_line cs) md_lines0
                       [(if hdrs \<noteq> [] then 1 else 0)..<length trs];
          table_md = str_join (u ''\<newline>'') md_lines
      in \<lparr>rows = int (length trs),
          cols = (if hdrs \<noteq> [] then int (length hdrs)
                  else if trs \<noteq> [] then int (length cs div length trs) else 0),
          headers = hdrs, cells = cs, markdown = table_md, hasHeader = (hdrs \<noteq> [])\<rparr>)"

definition html_element :: "html_state \<Rightarrow> node \<Rightarrow> py_exception + html_state" where
  "html_element s element =
     (let tname = lower (tag_name element) in
      if startswith tname (u ''h'') \<and> length tname = 2 then
        (case int_of_char (tname ! 1) of
           Inl err \<Rightarrow> Inl err
         | Inr lvl \<Rightarrow>
             (let txt = strip (get_text element) in
              if txt \<noteq> [] then
                Inr (s\<lparr>html_blocks := html_blocks s @
                          [(new_block (u ''heading'') txt (html_position s))
                             \<lparr>headingLevel := Some lvl, pageNumber := Some 1\<rparr>],
                        html_outline := html_outline s @
                          [DocumentOutlineItem txt lvl (Some 1) (html_position s) []],
                        html_position := html_position s + 1\<rparr>)
              else Inr s))
      else if tname = u ''p'' then
        (let txt = strip (get_text element) in
         if txt \<noteq> [] then
           Inr (s\<lparr>html_blocks := html_blocks s @
                     [(new_block (u ''paragraph'') txt (html_position s))\<lparr>pageNumber := Some 1\<rparr>],
                   html_position := html_position s + 1\<rparr>)
         else Inr s)
      else if tname \<in> set [u ''pre'', u ''code''] then
        (let txt = strip (get_text element) in
         if txt \<noteq> [] then
           (let lang = (case tag_class element of
                          None \<Rightarrow> None
                        | Some [] \<Rightarrow> None
                        | Some (c # _) \<Rightarrow> Some c)
            in Inr (s\<lparr>html_blocks := html_blocks s @
                        [(new_block (u ''code'') txt (html_position s))
                           \<lparr>codeLanguage := lang, pageNumber := Some 1\<rparr>],
                      html_position := html_position s + 1\<rparr>))
         else Inr s)
      else if tname \<in> set [u ''ul'', u ''ol''] then
        (let items = map (\<lambda>li. strip (get_text li)) (find_all_children [u ''li''] element) in
         if items \<noteq> [] then
           Inr (s\<lparr>html_blocks := html_blocks s @
                     [(new_block (u ''list'') (str_join (u ''\<newline>'') items) (html_position s))
                        \<lparr>listType := Some (if tname = u ''ol'' then u ''ordered'' else u ''unordered''),
                         listItems := Some items, pageNumber := Some 1\<rparr>],
                   html_position := html_position s + 1\<rparr>)
         else Inr s)
      else if tname = u ''table'' then
        (let trs = find_all [u ''tr''] element in
         if trs \<noteq> [] then
           (let t = html_table trs in
            Inr (s\<lparr>html_blocks := html_blocks s @
                      [(new_block (u ''table'') (markdown t) (html_position s))
                         \<lparr>table := Some t, pageNumber := Some 1\<rparr>],
                    html_position := html_position s + 1\<rparr>))
         else Inr s)
      else Inr s)"

text \<open>
  The body of the \<open>try\<close> block once the import has succeeded: the title, the blocks and
  the outline, and the full text.
\<close>

definition html_try :: "node \<Rightarrow> py_exception + (str option \<times> html_state \<times> str)" where
  "html_try soup =
     (let title_v = (case find (u ''title'') soup of
                       None \<Rightarrow> None
                     | Some title_tag \<Rightarrow> Some (strip (get_text title_tag)));
          body = (case find (u ''body'') soup of None \<Rightarrow> soup | Some b \<Rightarrow> b)
      in case fold_exc html_element
                \<lparr>html_blocks = [], html_position = 0, html_outline = []\<rparr>
                (find_all [u ''h1'', u ''h2'', u ''h3'', u ''h4'', u ''h5'', u ''h6'', u ''p'',
                           u ''table'', u ''pre'', u ''code'', u ''ul'', u ''ol''] body) of
           Inl err \<Rightarrow> Inl err
         | Inr s \<Rightarrow> Inr (title_v, s, strip (get_text_sep (u ''\<newline>'') soup)))"

text \<open>
  The HTML-parsing capability: \<open>None\<close> when \<open>from bs4 import BeautifulSoup\<close> raises
  ImportError, else the function \<open>content \<mapsto> BeautifulSoup(content, 'html.parser')\<close>,
  which gives \<open>None\<close> where the parser rejects the markup (bs4's ParserRejectedMarkup).
\<close>

type_synonym bs4 = "(str \<Rightarrow> node option) option"

definition parse_html_content :: "env \<Rightarrow> bs4 \<Rightarrow> str \<Rightarrow> str \<Rightarrow> py_exception + ParsedDocument" where
  "parse_html_content e bs content_str fname =
     (let tried = (case bs of
                     None \<Rightarrow> Inl ImportError
                   | Some BeautifulSoup \<Rightarrow>
                       (case BeautifulSoup content_str of
                          None \<Rightarrow> Inl ParserRejectedMarkup
                        | Some soup \<Rightarrow> html_try soup))
      in case (case tried of
                 Inr r \<Rightarrow> Inr (r, [])
               | Inl ImportError \<Rightarrow>
                   Inr ((None,
                         \<lparr>html_blocks = [], html_position = 0, html_outline = []\<rparr>,
                         content_str),
                        [\<lparr>code = u ''BEAUTIFULSOUP_MISSING'',
                          message = u ''BeautifulSoup not installed. Install with: pip install beautifulsoup4'',
                          warning_pageNumber = None, warning_position = None,
                          severity = u ''error''\<rparr>])
               | Inl err \<Rightarrow> Inl err) of
           Inl err \<Rightarrow> Inl err
         | Inr ((title_v, s, full_text), warns) \<Rightarrow>
             (case encode content_str of
                Inl err \<Rightarrow> Inl err
              | Inr cb \<Rightarrow>
                  (case generate_document_id e cb fname of
                     Inl err \<Rightarrow> Inl err
                   | Inr doc_id \<Rightarrow>
                       Inr \<lparr>documentId = doc_id,
                            metadata = (new_metadata fname (u ''html'') (int (length cb)) 1
                                          (u ''native-html''))\<lparr>meta_title := title_v\<rparr>,
                            blocks = html_blocks s,
                            fullText = full_text,
                            outline = html_outline s,
                            warnings = warns,
                            success = (warns = [] \<or>
                                       list_all (\<lambda>w. severity w \<noteq> u ''error'') warns)\<rparr>)))"

section \<open>Delegated binary normalizer\<close>

text \<open>
  What the conversion backend hands over. A text element: \<open>item.text\<close> (\<open>None\<close> without
  that attribute), \<open>str(item)\<close>, the label (\<open>None\<close> without that attribute) and the page
  number (\<open>None\<close> without that attribute).
\<close>

record text_item =
  item_text :: "str option"
  item_str :: str
  item_label :: "str option"
  item_page_no :: "int option"

text \<open>
  A data frame: the \<open>str\<close> of each column header, and for each row of \<open>iterrows()\<close> the
  value of \<open>int(row_idx)\<close> for its index label (\<open>Inl\<close> the message of the exception when
  that raises) with the \<open>str\<close> of each value.
\<close>

record data_frame =
  columns :: "str list"
  iterrows :: "((str + int) \<times> str list) list"

text \<open>
  A tabular object: the outcome of \<open>export_to_dataframe()\<close> (\<open>Inl\<close> the message of the
  exception it raises, \<open>Inr None\<close> without that method or when it returns \<open>None\<close>) and
  the page number.
\<close>

record docling_table =
  export_to_dataframe :: "str + data_frame option"
  table_page_no :: "int option"

record docling_document =
  pages_len :: "nat option"
  doc_title :: "str option"
  texts :: "text_item list option"
  tables :: "docling_table list option"
  export_to_markdown :: "str option"

record ParseOptions =
  extractTables :: bool
  extractImages :: bool
  enableOCR :: bool
  maxPages :: int
  language :: str

text \<open>
  The converter: \<open>convert\<close> maps the bytes written to the temporary file and its suffix
  to the converted document, or raises.
\<close>

record converter =
  convert :: "bytes \<Rightarrow> str \<Rightarrow> py_exception + docling_document"
  converter_version :: "str option"

text \<open>\<open>Path(filename).suffix\<close> on a POSIX path.\<close>

definition path_name :: "str \<Rightarrow> str" where
  "path_name fname =
     (case filter (\<lambda>p. p \<noteq> [] \<and> p \<noteq> u ''.'') (py_split fname (u ''/'')) of
        [] \<Rightarrow> []
      | p # ps \<Rightarrow> last (p # ps))"

definition path_suffix :: "str \<Rightarrow> str" where
  "path_suffix fname =
     (let name = path_name fname;
          after = length (takeWhile (\<lambda>c. [c] \<noteq> u ''.'') (rev name))
      in if after < length name \<and> 0 < after \<and> Suc after < length name
         then drop (length name - Suc after) name
         else [])"

record docling_state =
  dl_blocks :: "ContentBlock list"
  dl_position :: int
  dl_outline :: "DocumentOutlineItem list"
  dl_warnings :: "ParsingWarning list"

definition docling_text :: "docling_state \<Rightarrow> text_item \<Rightarrow> docling_state" where
  "docling_text s item =
     (let txt = (case item_text item of Some t \<Rightarrow> strip t | None \<Rightarrow> strip (item_str item)) in
      if txt = [] then s
      else
        (let label = lower (case item_label item of Some l \<Rightarrow> l | None \<Rightarrow> u ''paragraph'');
             page_num = (case item_page_no item of Some p \<Rightarrow> p | None \<Rightarrow> 1);
             has = (\<lambda>w. contains w label);
             s1 =
               (if has (u ''heading'') \<or> has (u ''title'') then
                  (let lvl0 = (if has (u ''title'') then 1 else 2);
                       lvl = (if has (u ''h1'') then 1 else if has (u ''h2'') then 2
                              else if has (u ''h3'') then 3 else if has (u ''h4'') then 4
                              else if has (u ''h5'') then 5 else if has (u ''h6'') then 6
                              else lvl0)
                   in s\<lparr>dl_blocks := dl_blocks s @
                            [(new_block (u ''heading'') txt (dl_position s))
                               \<lparr>headingLevel := Some lvl, pageNumber := Some page_num\<rparr>],
                         dl_outline := dl_outline s @
                            [DocumentOutlineItem txt lvl (Some page_num) (dl_position s) []]\<rparr>)
                else if has (u ''list'') then
                  s\<lparr>dl_blocks := dl_blocks s @
                       [(new_block (u ''list'') txt (dl_position s))
                          \<lparr>listType := Some (u ''unordered''), listItems := Some [txt],
                           pageNumber := Some page_num\<rparr>]\<rparr>
                else
                  s\<lparr>dl_blocks := dl_blocks s @
                       [(new_block
                           (if has (u ''code'') then u ''code''
                            else if has (u ''caption'') then u ''caption''
                            else if has (u ''footer'') then u ''footer''
                            else if has (u ''header'') then u ''header''
                            else u ''paragraph'')
                           txt (dl_position s))\<lparr>pageNumber := Some page_num\<rparr>]\<rparr>)
         in s1\<lparr>dl_position := dl_position s + 1\<rparr>))"

text \<open>
  The cells of a data frame: the header row, then the data rows; \<open>int(row_idx)\<close> is
  evaluated for each value of a row.
\<close>

definition docling_value :: "str + int \<Rightarrow> TableCell list \<Rightarrow> nat \<times> str \<Rightarrow> str + TableCell list" where
  "docling_value row_idx cs iv =
     (case row_idx of
        Inl msg \<Rightarrow> Inl msg
      | Inr i \<Rightarrow>
          Inr (cs @ [\<lparr>cell_content = snd iv, row = i + 1, col = int (fst iv),
                      rowSpan = 1, colSpan = 1, isHeader = False\<rparr>]))"

definition docling_row :: "TableCell list \<Rightarrow> (str + int) \<times> str list \<Rightarrow> str + TableCell list" where
  "docling_row cs r = fold_exc (docling_value (fst r)) cs (enumerate 0 (snd r))"

definition docling_header_cells :: "str list \<Rightarrow> TableCell list" where
  "docling_header_cells hdrs =
     map (\<lambda>ih. \<lparr>cell_content = snd ih, row = 0, col = int (fst ih),
                 rowSpan = 1, colSpan = 1, isHeader = True\<rparr>) (enumerate 0 hdrs)"

definition docling_frame :: "data_frame \<Rightarrow> str + TableStructure" where
  "docling_frame table_data =
     (let hdrs = columns table_data in
      case fold_exc docling_row (docling_header_cells hdrs) (iterrows table_data) of
        Inl msg \<Rightarrow> Inl msg
      | Inr cs \<Rightarrow>
          (let md_lines = [md_row hdrs, md_row (replicate (length hdrs) (u ''---''))]
                          @ map (\<lambda>r. md_row (snd r)) (iterrows table_data);
               table_md = str_join (u ''\<newline>'') md_lines
           in Inr \<lparr>rows = int (length (iterrows table_data)) + 1, cols = int (length hdrs),
                   headers = hdrs, cells = cs, markdown = table_md, hasHeader = True\<rparr>))"

text \<open>
  The body of the \<open>try\<close> block for one tabular object: \<open>Inl\<close> the message of the
  exception raised, \<open>Inr None\<close> when there is no data frame.
\<close>

definition docling_convert_table :: "docling_table \<Rightarrow> str + TableStructure option" where
  "docling_convert_table tbl =
     (case export_to_dataframe tbl of
        Inl msg \<Rightarrow> Inl msg
      | Inr None \<Rightarrow> Inr None
      | Inr (Some table_data) \<Rightarrow>
          (case docling_frame table_data of Inl msg \<Rightarrow> Inl msg | Inr t \<Rightarrow> Inr (Some t)))"

text \<open>One turn of the loop over the tabular objects; \<open>it\<close> is \<open>(table_idx, table)\<close>.\<close>

definition docling_table_step :: "docling_state \<Rightarrow> nat \<times> docling_table \<Rightarrow> docling_state" where
  "docling_table_step s it =
     (case docling_convert_table (snd it) of
        Inl msg \<Rightarrow>
          s\<lparr>dl_warnings := dl_warnings s @
               [\<lparr>code = u ''TABLE_EXTRACTION_FAILED'',
                 message = u ''Failed to extract table '' @ str_of_nat (fst it) @ u '': '' @ msg,
                 warning_pageNumber = None, warning_position = None,
                 severity = u ''warning''\<rparr>]\<rparr>
      | Inr None \<Rightarrow> s
      | Inr (Some t) \<Rightarrow>
          s\<lparr>dl_blocks := dl_blocks s @
               [(new_block (u ''table'') (markdown t) (dl_position s))
                  \<lparr>table := Some t,
                   pageNumber := Some (case table_page_no (snd it) of Some p \<Rightarrow> p | None \<Rightarrow> 1)\<rparr>],
            dl_position := dl_position s + 1\<rparr>)"

text \<open>The elements and tables of a converted document, in the order of the source.\<close>

definition docling_process :: "ParseOptions \<Rightarrow> docling_document \<Rightarrow> docling_state" where
  "docling_process options doc =
     (let s0 = \<lparr>dl_blocks = [], dl_position = 0, dl_outline = [], dl_warnings = []\<rparr>;
          s1 = (case texts doc of None \<Rightarrow> s0 | Some ts \<Rightarrow> foldl docling_text s0 ts)
      in case tables doc of
           None \<Rightarrow> s1
         | Some tbls \<Rightarrow>
             if extractTables options then foldl docling_table_step s1 (enumerate 0 tbls) else s1)"

definition parse_with_docling ::
  "env \<Rightarrow> bool \<Rightarrow> converter option \<Rightarrow> bytes \<Rightarrow> str \<Rightarrow> ParseOptions \<Rightarrow> py_exception + ParsedDocument" where
  "parse_with_docling e DOCLING_AVAILABLE conv file_content fname options =
     (case conv of
        None \<Rightarrow> Inl (ValueError (u ''Docling converter not available''))
      | Some cv \<Rightarrow>
          if \<not> DOCLING_AVAILABLE then Inl (ValueError (u ''Docling converter not available''))
          else
            (let file_ext = lower (path_suffix fname) in
             case convert cv file_content file_ext of
               Inl err \<Rightarrow> Inl err
             | Inr doc \<Rightarrow>
                 (let page_count = (case pages_len doc of
                                      None \<Rightarrow> 1
                                    | Some n \<Rightarrow> if n = 0 then 1 else int n);
                      s = docling_process options doc;
                      full_text = (case export_to_markdown doc of
                                     Some md \<Rightarrow> md
                                   | None \<Rightarrow> str_join (u ''\<newline>'') (map content (dl_blocks s)));
                      detected_format =
                        (if file_ext = u ''.pdf'' then u ''pdf''
                         else if file_ext = u ''.docx'' then u ''docx''
                         else if file_ext = u ''.pptx'' then u ''pptx''
                         else if file_ext = u ''.xlsx'' then u ''xlsx''
                         else u ''pdf'')
                  in case generate_document_id e file_content fname of
                       Inl err \<Rightarrow> Inl err
                     | Inr doc_id \<Rightarrow>
                         Inr \<lparr>documentId = doc_id,
                              metadata =
                                (new_metadata fname detected_format (int (length file_content))
                                   page_count (u ''docling''))
                                  \<lparr>meta_title := doc_title doc,
                                   parserVersion :=
                                     Some (case converter_version cv of
                                             Some v \<Rightarrow> v | None \<Rightarrow> u ''1.0.0'')\<rparr>,
                              blocks = dl_blocks s,
                              fullText = full_text,
                              outline = dl_outline s,
                              warnings = dl_warnings s,
                              success = True\<rparr>)))"

section \<open>Decoding bytes\<close>

text \<open>
  \<open>b.decode('utf-8', errors=...)\<close> as CPython does it. \<open>utf8_next\<close> reads the head of a
  non-empty input: a code point with the number of bytes it takes, or the number of bytes
  of the invalid range that starts there (an invalid start byte, the bytes before an
  invalid continuation byte, or all that is left of a sequence cut off by the end).
\<close>

datatype errors = Strict | Replace

datatype utf8_item = Decoded nat nat | Invalid nat

definition is_continuation :: "nat \<Rightarrow> bool" where
  "is_continuation b \<longleftrightarrow> 128 \<le> b \<and> b \<le> 191"

definition utf8_next :: "nat list \<Rightarrow> utf8_item" where
  "utf8_next bs =
     (let b0 = bs ! 0; n = length bs in
      if b0 < 128 then Decoded b0 1
      else if b0 < 194 then Invalid 1
      else if b0 < 224 then
        (if n < 2 then Invalid n
         else if \<not> is_continuation (bs ! 1) then Invalid 1
         else Decoded ((b0 - 192) * 64 + (bs ! 1 - 128)) 2)
      else if b0 < 240 then
        (if n < 2 then Invalid n
         else if \<not> is_continuation (bs ! 1) \<or> (b0 = 224 \<and> bs ! 1 < 160) \<or>
                 (b0 = 237 \<and> 160 \<le> bs ! 1) then Invalid 1
         else if n < 3 then Invalid n
         else if \<not> is_continuation (bs ! 2) then Invalid 2
         else Decoded ((b0 - 224) * 4096 + (bs ! 1 - 128) * 64 + (bs ! 2 - 128)) 3)
      else if b0 < 245 then
        (if n < 2 then Invalid n
         else if \<not> is_continuation (bs ! 1) \<or> (b0 = 240 \<and> bs ! 1 < 144) \<or>
                 (b0 = 244 \<and> 144 \<le> bs ! 1) then Invalid 1
         else if n < 3 then Invalid n
         else if \<not> is_continuation (bs ! 2) then Invalid 2
         else if n < 4 then Invalid n
         else if \<not> is_continuation (bs ! 3) then Invalid 3
         else Decoded ((b0 - 240) * 262144 + (bs ! 1 - 128) * 4096 + (bs ! 2 - 128) * 64
                       + (bs ! 3 - 128)) 4)
      else Invalid 1)"

text \<open>
  The decoder. An item takes at least one byte, the head \<open>b\<close>; the other \<open>k - 1\<close>
  bytes are dropped from the tail. Under \<open>Strict\<close> an invalid range raises, under
  \<open>Replace\<close> it gives U+FFFD.
\<close>

function decode_from :: "errors \<Rightarrow> nat list \<Rightarrow> py_exception + str" where
  "decode_from mode [] = Inr []"
| "decode_from mode (b # bs) =
     (case utf8_next (b # bs) of
        Decoded cp k \<Rightarrow>
          (case decode_from mode (drop (k - 1) bs) of
             Inl err \<Rightarrow> Inl err
           | Inr s \<Rightarrow> Inr (cp # s))
      | Invalid k \<Rightarrow>
          (case mode of
             Strict \<Rightarrow> Inl UnicodeDecodeError
           | Replace \<Rightarrow>
               (case decode_from mode (drop (k - 1) bs) of
                  Inl err \<Rightarrow> Inl err
                | Inr s \<Rightarrow> Inr (65533 # s))))"
  by pat_completeness auto
termination
  by (relation "measure (\<lambda>(mode, bs). length bs)") auto

definition decode :: "errors \<Rightarrow> bytes \<Rightarrow> py_exception + str" where
  "decode mode b = decode_from mode (map unat b)"

section \<open>Dispatch\<close>

definition MAX_FILE_SIZE :: nat where
  "MAX_FILE_SIZE = 150 * 1024 * 1024"

definition get_format_from_filename :: "str \<Rightarrow> str option" where
  "get_format_from_filename fname =
     map_of [(u ''.pdf'', u ''pdf''), (u ''.docx'', u ''docx''), (u ''.pptx'', u ''pptx''),
             (u ''.xlsx'', u ''xlsx''), (u ''.html'', u ''html''), (u ''.htm'', u ''html''),
             (u ''.md'', u ''md''), (u ''.markdown'', u ''md''), (u ''.txt'', u ''txt'')]
       (lower (path_suffix fname))"

record ParseRequest =
  fileContent :: str
  request_filename :: str
  mimeType :: "str option"
  request_options :: "ParseOptions option"

text \<open>
  The response without \<open>processingTimeMs\<close>; \<open>error\<close> keeps the exception whose \<open>str\<close>
  the service reports.
\<close>

record ParseResponse =
  response_success :: bool
  document :: "ParsedDocument option"
  error :: "py_exception option"

datatype http_result = HTTPException int str | Returned ParseResponse

definition default_options :: ParseOptions where
  "default_options = \<lparr>extractTables = True, extractImages = False, enableOCR = False,
                       maxPages = 0, language = u ''de''\<rparr>"

text \<open>
  The handler of \<open>/parse\<close>. \<open>b64decode\<close> is \<open>base64.b64decode\<close> (\<open>Inl\<close> the message of
  the exception it raises); \<open>bs\<close>, \<open>DOCLING_AVAILABLE\<close> and \<open>conv\<close> are the capabilities
  of the process.
\<close>

definition parse ::
  "env \<Rightarrow> (str \<Rightarrow> str + bytes) \<Rightarrow> bs4 \<Rightarrow> bool \<Rightarrow> converter option \<Rightarrow> ParseRequest \<Rightarrow> http_result" where
  "parse e b64decode bs DOCLING_AVAILABLE conv request =
     (case b64decode (fileContent request) of
        Inl msg \<Rightarrow> HTTPException 400 (u ''Invalid base64 content: '' @ msg)
      | Inr file_content \<Rightarrow>
          if length file_content > MAX_FILE_SIZE then
            HTTPException 413 (u ''File too large. Maximum size: 150MB'')
          else
            (case get_format_from_filename (request_filename request) of
               None \<Rightarrow>
                 HTTPException 400 (u ''Unsupported file format: '' @ request_filename request)
             | Some detected_format \<Rightarrow>
                 (let options = (case request_options request of
                                   Some opts \<Rightarrow> opts | None \<Rightarrow> default_options);
                      respond = (\<lambda>r. case r of
                                   Inr doc \<Rightarrow>
                                     Returned \<lparr>response_success = success doc,
                                               document = Some doc, error = None\<rparr>
                                 | Inl err \<Rightarrow>
                                     Returned \<lparr>response_success = False,
                                               document = None, error = Some err\<rparr>)
                  in if detected_format \<in> set [u ''md'', u ''markdown''] then
                       respond (case decode Replace file_content of
                                  Inl err \<Rightarrow> Inl err
                                | Inr content_str \<Rightarrow>
                                    parse_markdown_content e content_str (request_filename request))
                     else if detected_format = u ''txt'' then
                       respond (case decode Replace file_content of
                                  Inl err \<Rightarrow> Inl err
                                | Inr content_str \<Rightarrow>
                                    parse_txt_content e content_str (request_filename request))
                     else if detected_format = u ''html'' then
                       respond (case decode Replace file_content of
                                  Inl err \<Rightarrow> Inl err
                                | Inr content_str \<Rightarrow>
                                    parse_html_content e bs content_str (request_filename request))
                     else if DOCLING_AVAILABLE \<and> conv \<noteq> None then
                       respond (parse_with_docling e DOCLING_AVAILABLE conv file_content
                                  (request_filename request) options)
                     else
                       HTTPException 503
                         (u ''Docling not available for '' @ detected_format
                          @ u '' parsing. Install docling package.''))))"

section \<open>Predicates used in the statements\<close>

text \<open>The counter of the Markdown scan numbers the blocks emitted so far.\<close>

definition positions_ok :: "md_state \<Rightarrow> bool" where
  "positions_ok s \<longleftrightarrow>
     map position (md_blocks s) = map int [0..<length (md_blocks s)] \<and>
     md_position s = int (length (md_blocks s))"

definition is_heading :: "ContentBlock \<Rightarrow> bool" where
  "is_heading b \<longleftrightarrow> type b = u ''heading''"

definition is_code :: "ContentBlock \<Rightarrow> bool" where
  "is_code b \<longleftrightarrow> type b = u ''code''"

text \<open>Reading a decimal numeral back, to tell two renderings apart.\<close>

definition nat_of_str :: "str \<Rightarrow> nat" where
  "nat_of_str s = foldl (\<lambda>acc d. 10 * acc + (d - 48)) 0 s"


text \<open>The \<open>(row, col)\<close> pairs of rows numbered from \<open>n\<close> with the given lengths.\<close>

fun grid :: "nat \<Rightarrow> nat list \<Rightarrow> (int \<times> int) list" where
  "grid n [] = []"
| "grid n (m # ms) = map (\<lambda>j. (int n, int j)) [0..<m] @ grid (Suc n) ms"





text \<open>The code points that a \<open>str\<close> can be encoded from: no surrogates.\<close>

definition is_scalar :: "nat \<Rightarrow> bool" where
  "is_scalar c \<longleftrightarrow> c < 1114112 \<and> \<not> (55296 \<le> c \<and> c \<le> 57343)"

section \<open>Inputs for concrete runs\<close>

text \<open>An environment: a fixed clock reading and a stand-in digest function.\<close>

definition example_env :: env where
  "example_env = \<lparr>time_time = 3400000001 / 2, sha256_hexdigest =
       (\<lambda>bs. u ''2cf24dba5fb0a30e26e83b2ac5b9e29e1b161e5c1fa7425e73043362938b9824'')\<rparr>"

text \<open>
  The document
  \<open><table><tr><th>A</th><th>B</th></tr><tr><td>1</td><td>2</td></tr></table>\<close>
  and its tree: the parser adds no \<open>html\<close>, \<open>body\<close> or \<open>tbody\<close> element.
\<close>

definition example_html :: str where
  "example_html = u ''<table><tr><th>A</th><th>B</th></tr><tr><td>1</td><td>2</td></tr></table>''"

definition example_table :: node where
  "example_table =
     Tag (u ''[document]'') None
       [Tag (u ''table'') None
          [Tag (u ''tr'') None
             [Tag (u ''th'') None [Text (u ''A'')], Tag (u ''th'') None [Text (u ''B'')]],
           Tag (u ''tr'') None
             [Tag (u ''td'') None [Text (u ''1'')], Tag (u ''td'') None [Text (u ''2'')]]]]"

text \<open>
  A converted document: one paragraph and two tables, the first of which cannot be
  exported.
\<close>

definition example_frame :: data_frame where
  "example_frame = \<lparr>columns = [u ''A'', u ''B''], iterrows = [(Inr 0, [u ''1'', u ''2''])]\<rparr>"

definition example_document :: docling_document where
  "example_document =
     \<lparr>pages_len = Some 1, doc_title = None,
      texts = Some [\<lparr>item_text = Some (u ''Hello''), item_str = u ''Hello'',
                     item_label = Some (u ''text''), item_page_no = None\<rparr>],
      tables = Some [\<lparr>export_to_dataframe = Inl (u ''boom''), table_page_no = None\<rparr>,
                     \<lparr>export_to_dataframe = Inr (Some example_frame), table_page_no = None\<rparr>],
      export_to_markdown = None\<rparr>"

definition example_converter :: converter where
  "example_converter = \<lparr>convert = (\<lambda>b s. Inr example_document), converter_version = None\<rparr>"

definition example_options :: ParseOptions where
  "example_options = \<lparr>extractTables = True, extractImages = False, enableOCR = False,
                       maxPages = 0, language = u ''de''\<rparr>"

text \<open>A request: a Markdown file whose first byte is not UTF-8.\<close>

definition example_request :: ParseRequest where
  "example_request = \<lparr>fileContent = u ''/yMgVA=='', request_filename = u ''a.md'',
                       mimeType = None, request_options = None\<rparr>"

definition example_b64decode :: "str \<Rightarrow> str + bytes" where
  "example_b64decode s =
     (if s = u ''/yMgVA=='' then Inr [255, 35, 32, 84]
      else if s = u ''PCFbeF0+'' then Inr [60, 33, 91, 120, 93, 62]
      else if s = u ''PHRhYmxlPjx0cj48dGg+QTwvdGg+PHRoPkI8L3RoPjwvdHI+PHRyPjx0ZD4xPC90ZD48dGQ+MjwvdGQ+PC90cj48L3RhYmxlPg==''
      then Inr (map of_nat example_html)
      else Inl (u ''Incorrect padding''))"







text \<open>
  A request with the HTML document of the example, and a request with the six bytes
  \<open><![x]>\<close>, which Python 3.11's \<open>html.parser\<close> refuses (unknown status keyword in a
  marked section) so that bs4 raises ParserRejectedMarkup; \<open>rejecting_parser\<close> stands for
  the parser on that input.
\<close>

definition table_request :: ParseRequest where
  "table_request =
     \<lparr>fileContent = u ''PHRhYmxlPjx0cj48dGg+QTwvdGg+PHRoPkI8L3RoPjwvdHI+PHRyPjx0ZD4xPC90ZD48dGQ+MjwvdGQ+PC90cj48L3RhYmxlPg=='',
      request_filename = u ''a.html'', mimeType = None, request_options = None\<rparr>"

definition rejected_request :: ParseRequest where
  "rejected_request = \<lparr>fileContent = u ''PCFbeF0+'', request_filename = u ''a.html'',
                        mimeType = None, request_options = None\<rparr>"

definition rejecting_parser :: "str \<Rightarrow> node option" where
  "rejecting_parser c = None"

definition accepting_parser :: "str \<Rightarrow> node option" where
  "accepting_parser c = Some example_table"

text \<open>A request whose file name \<open>a?.md\<close> holds the lone surrogate U+DC80.\<close>

definition surrogate_request :: ParseRequest where
  "surrogate_request = \<lparr>fileContent = u ''/yMgVA=='', request_filename = [97, 56448, 46, 109, 100],
                         mimeType = None, request_options = None\<rparr>"

section \<open>Evaluation rules\<close>

lemmas py_eval = u_def py_split_def startswith_def strip_def lstrip_def rstrip_def isspace_def
  lstrip_chars_def isdigit_def digit_ranges_def

lemmas md_eval = md_final_blocks_def md_line_def md_init_def flush_def is_list_line_def
  heading_level_def new_block_def Let_def

section \<open>Markdown normalizer: positions and heading levels\<close>

lemma positions_ok_init: "positions_ok md_init"
  by (simp add: positions_ok_def md_init_def)

lemma positions_ok_flush: "positions_ok s \<Longrightarrow> positions_ok (flush s)"
  by (simp add: positions_ok_def flush_def Let_def new_block_def)

lemma positions_ok_md_line: "positions_ok s \<Longrightarrow> positions_ok (md_line s line)"
proof -
  assume a: "positions_ok s"
  have f: "positions_ok (flush s)" using a by (rule positions_ok_flush)
  show ?thesis
    using a f by (simp add: md_line_def Let_def positions_ok_def new_block_def)
qed

lemma positions_ok_foldl: "positions_ok s \<Longrightarrow> positions_ok (foldl md_line s ls)"
  by (induction ls arbitrary: s) (simp_all add: positions_ok_md_line)

lemma positions_final:
  "positions_ok s \<Longrightarrow>
   map position (md_final_blocks s) = map int [0..<length (md_final_blocks s)]"
  by (simp add: positions_ok_def md_final_blocks_def new_block_def)

lemma heading_flush: "filter is_heading (md_blocks (flush s)) = filter is_heading (md_blocks s)"
  by (simp add: flush_def Let_def new_block_def is_heading_def u_def)

lemma heading_md_line:
  "map headingLevel (filter is_heading (md_blocks (md_line s line))) =
   map headingLevel (filter is_heading (md_blocks s)) @
   (if startswith line (u ''#'') then [Some (heading_level line)] else [])"
  using heading_flush [of s]
  by (simp add: md_line_def Let_def new_block_def is_heading_def u_def)

lemma heading_foldl:
  "map headingLevel (filter is_heading (md_blocks (foldl md_line s ls))) =
   map headingLevel (filter is_heading (md_blocks s)) @
   map (\<lambda>line. Some (heading_level line)) (filter (\<lambda>line. startswith line (u ''#'')) ls)"
  by (induction ls arbitrary: s) (simp_all add: heading_md_line)

lemma heading_final:
  "filter is_heading (md_final_blocks s) = filter is_heading (md_blocks s)"
  by (simp add: md_final_blocks_def new_block_def is_heading_def u_def)

lemma heading_level_count:
  "heading_level line = min (int (length (takeWhile (\<lambda>c. [c] = u ''#'') line))) 6"
proof -
  have "length line = length (takeWhile (\<lambda>c. c = 35) line) + length (dropWhile (\<lambda>c. c = 35) line)"
    by (metis length_append takeWhile_dropWhile_id)
  then show ?thesis
    by (simp add: heading_level_def lstrip_chars_def u_def)
qed

lemma heading_level_range:
  "startswith line (u ''#'') \<Longrightarrow> 1 \<le> heading_level line \<and> heading_level line \<le> 6"
  by (cases line) (simp_all add: heading_level_count startswith_def u_def)

lemma parse_markdown_content_returns:
  assumes "encode content_str = Inr cb" and "encode fname = Inr fb"
  shows "\<exists>doc. parse_markdown_content e content_str fname = Inr doc"
  using assms by (simp add: parse_markdown_content_def generate_document_id_def Let_def)

lemma parse_markdown_content_blocks:
  assumes "parse_markdown_content e content_str fname = Inr doc"
  shows "blocks doc = md_final_blocks (foldl md_line md_init (py_split content_str (u ''\<newline>'')))"
  using assms
  by (auto simp add: parse_markdown_content_def Let_def split: sum.splits)

text \<open>
  Claim C1. For every Markdown input, the positions of the emitted blocks are exactly
  0..n-1 in order, and the heading blocks carry, in line order, the number of leading
  \<open>#\<close> characters of their lines capped at 6, which lies between 1 and 6.
\<close>

theorem markdown_positions_and_heading_levels:
  assumes "parse_markdown_content e content_str fname = Inr doc"
  shows "map position (blocks doc) = map int [0..<length (blocks doc)] \<and>
         map headingLevel (filter (\<lambda>b. type b = u ''heading'') (blocks doc)) =
           map (\<lambda>line. Some (min (int (length (takeWhile (\<lambda>c. [c] = u ''#'') line))) 6))
               (filter (\<lambda>line. startswith line (u ''#'')) (py_split content_str (u ''\<newline>''))) \<and>
         (\<forall>b \<in> set (blocks doc). type b = u ''heading'' \<longrightarrow>
            (\<exists>l. headingLevel b = Some l \<and> 1 \<le> l \<and> l \<le> 6))"
proof -
  let ?ls = "py_split content_str (u ''\<newline>'')"
  let ?s = "foldl md_line md_init ?ls"
  have b: "blocks doc = md_final_blocks ?s"
    using assms by (rule parse_markdown_content_blocks)
  have p: "map position (blocks doc) = map int [0..<length (blocks doc)]"
    unfolding b by (intro positions_final positions_ok_foldl positions_ok_init)
  have h: "map headingLevel (filter is_heading (blocks doc)) =
           map (\<lambda>line. Some (heading_level line)) (filter (\<lambda>line. startswith line (u ''#'')) ?ls)"
    unfolding b heading_final heading_foldl by (simp add: md_init_def)
  have r: "\<exists>l. headingLevel b = Some l \<and> 1 \<le> l \<and> l \<le> 6"
    if "b \<in> set (blocks doc)" and "is_heading b" for b
  proof -
    from that have "headingLevel b \<in> set (map headingLevel (filter is_heading (blocks doc)))"
      by simp
    then obtain line where "startswith line (u ''#'')" and "headingLevel b = Some (heading_level line)"
      unfolding h by auto
    then show ?thesis using heading_level_range by simp
  qed
  from h have h': "map headingLevel (filter (\<lambda>b. type b = u ''heading'') (blocks doc)) =
           map (\<lambda>line. Some (min (int (length (takeWhile (\<lambda>c. [c] = u ''#'') line))) 6))
               (filter (\<lambda>line. startswith line (u ''#'')) ?ls)"
    by (simp add: is_heading_def [abs_def] heading_level_count)
  from p h' r show ?thesis by (simp add: is_heading_def)
qed

theorem markdown_positions_and_heading_levels_witness:
  "\<exists>doc. parse_markdown_content example_env (u ''# T\<newline>para\<newline>\<newline>####### deep'') (u ''a.md'') = Inr doc \<and>
     map position (blocks doc) = [0, 1, 2] \<and>
     map headingLevel (filter (\<lambda>b. type b = u ''heading'') (blocks doc)) = [Some 1, Some 6]"
proof -
  let ?c = "u ''# T\<newline>para\<newline>\<newline>####### deep''"
  obtain doc where d: "parse_markdown_content example_env ?c (u ''a.md'') = Inr doc"
    by (simp add: parse_markdown_content_def generate_document_id_def Let_def u_def encode_char_def)
  have n: "length (blocks doc) = 3"
    unfolding parse_markdown_content_blocks [OF d] by (simp add: py_eval md_eval)
  have l: "py_split ?c (u ''\<newline>'') = [[35, 32, 84], u ''para'', [], [35, 35, 35, 35, 35, 35, 35, 32, 100, 101, 101, 112]]"
    by (simp add: py_eval)
  note t = markdown_positions_and_heading_levels [OF d]
  from t n have p: "map position (blocks doc) = [0, 1, 2]"
    by (simp add: numeral_3_eq_3 upt_conv_Cons)
  from t have "map headingLevel (filter (\<lambda>b. type b = u ''heading'') (blocks doc)) =
      map (\<lambda>line. Some (min (int (length (takeWhile (\<lambda>c. [c] = u ''#'') line))) 6))
               (filter (\<lambda>line. startswith line (u ''#'')) (py_split ?c (u ''\<newline>'')))"
    by simp
  also have "\<dots> = [Some 1, Some 6]"
    unfolding l by (simp add: startswith_def u_def)
  finally have h: "map headingLevel (filter (\<lambda>b. type b = u ''heading'') (blocks doc)) =
      [Some 1, Some 6]" .
  show ?thesis by (rule exI [of _ doc]) (intro conjI d p h)
qed

section \<open>Plain-text normalizer: one paragraph per non-empty segment\<close>

lemma txt_para_foldl:
  "snd st = int (length (fst st)) \<Longrightarrow>
   fst (foldl txt_para st ps) =
     fst st @ map (\<lambda>(i, t). (new_block (u ''paragraph'') t (int (length (fst st)) + int i))\<lparr>pageNumber := Some 1\<rparr>)
                 (enumerate 0 (filter (\<lambda>t. t \<noteq> []) (map strip ps)))"
proof (induction ps arbitrary: st)
  case Nil
  then show ?case by simp
next
  case (Cons p ps)
  show ?case
  proof (cases "strip p = []")
    case True
    then have "txt_para st p = st" by (simp add: txt_para_def)
    with Cons show ?thesis using True by simp
  next
    case False
    let ?st = "txt_para st p"
    have s: "snd ?st = int (length (fst ?st))"
      using Cons.prems False by (simp add: txt_para_def)
    have f: "fst ?st = fst st @ [(new_block (u ''paragraph'') (strip p) (int (length (fst st))))\<lparr>pageNumber := Some 1\<rparr>]"
      using Cons.prems False by (simp add: txt_para_def)
    show ?thesis
      using Cons.IH [OF s] False
      by (simp add: f enumerate_Suc_eq split_def o_def ac_simps)
  qed
qed

lemma map_int_fst_enumerate:
  "map (\<lambda>p. int (fst p)) (enumerate 0 xs) = map int [0..<length xs]"
proof -
  have "map (\<lambda>p. int (fst p)) (enumerate 0 xs) = map (int \<circ> fst) (enumerate 0 xs)"
    by (simp only: o_def)
  also have "\<dots> = map int (map fst (enumerate 0 xs))"
    by (simp only: map_map)
  also have "\<dots> = map int [0..<0 + length xs]"
    by (simp only: map_fst_enumerate)
  finally show ?thesis by simp
qed

lemma parse_txt_content_returns:
  assumes "encode content_str = Inr cb" and "encode fname = Inr fb"
  shows "\<exists>doc. parse_txt_content e content_str fname = Inr doc"
  using assms by (simp add: parse_txt_content_def generate_document_id_def Let_def)

lemma parse_txt_content_fields:
  assumes "parse_txt_content e content_str fname = Inr doc"
  shows "blocks doc = fst (foldl txt_para ([], 0) (py_split content_str (u ''\<newline>\<newline>'')))"
    and "outline doc = []" and "warnings doc = []" and "success doc"
  using assms
  by (auto simp add: parse_txt_content_def Let_def split: sum.splits)

text \<open>
  Claim C7. The plain-text normalizer emits one paragraph block per segment, taken from
  the split of the input on the double newline, that is non-empty after trimming: in
  segment order, with positions 0..n-1 and page number 1; the outline and the warnings
  are empty and the success flag is set.
\<close>

theorem txt_blocks_are_nonempty_segments:
  assumes "parse_txt_content e content_str fname = Inr doc"
  shows "map content (blocks doc) =
           filter (\<lambda>t. t \<noteq> []) (map strip (py_split content_str (u ''\<newline>\<newline>''))) \<and>
         length (blocks doc) =
           length (filter (\<lambda>seg. strip seg \<noteq> []) (py_split content_str (u ''\<newline>\<newline>''))) \<and>
         map position (blocks doc) = map int [0..<length (blocks doc)] \<and>
         map pageNumber (blocks doc) = replicate (length (blocks doc)) (Some 1) \<and>
         map type (blocks doc) = replicate (length (blocks doc)) (u ''paragraph'') \<and>
         outline doc = [] \<and> warnings doc = [] \<and> success doc"
proof -
  let ?segs = "filter (\<lambda>t. t \<noteq> []) (map strip (py_split content_str (u ''\<newline>\<newline>'')))"
  have b: "blocks doc =
      map (\<lambda>(i, t). (new_block (u ''paragraph'') t (int i))\<lparr>pageNumber := Some 1\<rparr>) (enumerate 0 ?segs)"
    unfolding parse_txt_content_fields(1) [OF assms]
    by (subst txt_para_foldl) simp_all
  have c: "map content (blocks doc) = ?segs"
    unfolding b by (simp add: new_block_def split_def o_def)
  have n: "length (blocks doc) = length ?segs"
    unfolding b by simp
  have n': "length ?segs = length (filter (\<lambda>seg. strip seg \<noteq> []) (py_split content_str (u ''\<newline>\<newline>'')))"
    by (simp add: filter_map o_def)
  have p: "map position (blocks doc) = map int [0..<length (blocks doc)]"
    unfolding n unfolding b by (simp add: new_block_def split_def o_def map_int_fst_enumerate)
  have g: "map pageNumber (blocks doc) = replicate (length (blocks doc)) (Some 1)"
    unfolding n unfolding b by (simp add: new_block_def split_def o_def map_replicate_const)
  have t: "map type (blocks doc) = replicate (length (blocks doc)) (u ''paragraph'')"
    unfolding n unfolding b by (simp add: new_block_def split_def o_def map_replicate_const)
  from c n n' p g t parse_txt_content_fields(2-4) [OF assms] show ?thesis by simp
qed

theorem txt_blocks_are_nonempty_segments_witness:
  "\<exists>doc. parse_txt_content example_env (u ''one\<newline>\<newline>  \<newline>\<newline>\<newline> two \<newline>three'') (u ''a.txt'') = Inr doc \<and>
     map content (blocks doc) = [u ''one'', u ''two \<newline>three''] \<and>
     map position (blocks doc) = [0, 1] \<and> success doc"
proof -
  let ?c = "u ''one\<newline>\<newline>  \<newline>\<newline>\<newline> two \<newline>three''"
  obtain doc where d: "parse_txt_content example_env ?c (u ''a.txt'') = Inr doc"
    by (simp add: parse_txt_content_def generate_document_id_def Let_def u_def encode_char_def)
  note t = txt_blocks_are_nonempty_segments [OF d]
  have l: "py_split ?c (u ''\<newline>\<newline>'') = [u ''one'', u ''  '', u ''\<newline> two \<newline>three'']"
    by (simp add: py_eval)
  have s: "filter (\<lambda>t. t \<noteq> []) (map strip (py_split ?c (u ''\<newline>\<newline>''))) = [u ''one'', u ''two \<newline>three'']"
    unfolding l by (simp add: py_eval)
  from t have c: "map content (blocks doc) = [u ''one'', u ''two \<newline>three'']"
    unfolding s by simp
  then have "length (blocks doc) = 2"
    by (metis length_map length_Cons list.size(3) numeral_2_eq_2)
  with t have p: "map position (blocks doc) = [0, 1]"
    by (simp add: numeral_2_eq_2 upt_conv_Cons)
  from t have k: "success doc" by simp
  show ?thesis by (rule exI [of _ doc]) (intro conjI d c p k)
qed

section \<open>Markdown normalizer: fence lines\<close>

lemma fence_not_heading: "startswith line (u ''```'') \<Longrightarrow> \<not> startswith line (u ''#'')"
  by (cases line) (simp_all add: startswith_def u_def)

lemma flush_clears: "current_paragraph (flush s) = []"
  by (simp add: flush_def Let_def)

lemma code_flush: "filter is_code (md_blocks (flush s)) = filter is_code (md_blocks s)"
  by (simp add: flush_def Let_def new_block_def is_code_def u_def)

lemma code_md_line:
  "map (\<lambda>b. (content b, codeLanguage b)) (filter is_code (md_blocks (md_line s line))) =
   map (\<lambda>b. (content b, codeLanguage b)) (filter is_code (md_blocks s)) @
   (if startswith line (u ''```'')
    then [([], if strip (drop 3 line) = [] then None else Some (strip (drop 3 line)))]
    else [])"
proof (cases "startswith line (u ''```'')")
  case True
  then show ?thesis
    using code_flush [of s] fence_not_heading [OF True]
    by (simp add: md_line_def Let_def new_block_def is_code_def)
next
  case False
  then show ?thesis
    using code_flush [of s]
    by (simp add: md_line_def Let_def new_block_def is_code_def u_def)
qed

lemma code_foldl:
  "map (\<lambda>b. (content b, codeLanguage b)) (filter is_code (md_blocks (foldl md_line s ls))) =
   map (\<lambda>b. (content b, codeLanguage b)) (filter is_code (md_blocks s)) @
   map (\<lambda>line. ([], if strip (drop 3 line) = [] then None else Some (strip (drop 3 line))))
       (filter (\<lambda>line. startswith line (u ''```'')) ls)"
  by (induction ls arbitrary: s) (simp_all add: code_md_line)

lemma code_final:
  "filter is_code (md_final_blocks s) = filter is_code (md_blocks s)"
  by (simp add: md_final_blocks_def new_block_def is_code_def u_def)

text \<open>
  Claim C4. A line that starts with three backticks flushes the pending paragraph and
  appends exactly one code block at the next position, whose language is the trimmed
  text after the backticks (absent when that is empty) and whose content is empty.
  In the whole document the code blocks are, in order, exactly these blocks of the fence
  lines: no other line contributes to a code block, so the lines between two fences
  never reach a code block's body.
\<close>

theorem fence_line_emits_empty_code_block:
  assumes "parse_markdown_content e content_str fname = Inr doc"
    and "startswith line (u ''```'')"
  shows "map (\<lambda>b. (content b, codeLanguage b)) (filter (\<lambda>b. type b = u ''code'') (blocks doc)) =
           map (\<lambda>line. ([], if strip (drop 3 line) = [] then None else Some (strip (drop 3 line))))
               (filter (\<lambda>line. startswith line (u ''```'')) (py_split content_str (u ''\<newline>''))) \<and>
         md_blocks (md_line s line) =
           md_blocks (flush s) @
           [(new_block (u ''code'') [] (md_position (flush s)))
              \<lparr>codeLanguage := (if strip (drop 3 line) = [] then None else Some (strip (drop 3 line))),
               pageNumber := Some 1\<rparr>] \<and>
         md_position (md_line s line) = md_position (flush s) + 1 \<and>
         current_paragraph (md_line s line) = []"
proof -
  have "map (\<lambda>b. (content b, codeLanguage b)) (filter is_code (blocks doc)) =
           map (\<lambda>line. ([], if strip (drop 3 line) = [] then None else Some (strip (drop 3 line))))
               (filter (\<lambda>line. startswith line (u ''```'')) (py_split content_str (u ''\<newline>'')))"
    unfolding parse_markdown_content_blocks [OF assms(1)] code_final code_foldl
    by (simp add: md_init_def)
  then have g: "map (\<lambda>b. (content b, codeLanguage b)) (filter (\<lambda>b. type b = u ''code'') (blocks doc)) =
           map (\<lambda>line. ([], if strip (drop 3 line) = [] then None else Some (strip (drop 3 line))))
               (filter (\<lambda>line. startswith line (u ''```'')) (py_split content_str (u ''\<newline>'')))"
    by (simp add: is_code_def [abs_def])
  have st: "md_line s line =
      (flush s)\<lparr>md_blocks := md_blocks (flush s) @
           [(new_block (u ''code'') [] (md_position (flush s)))
              \<lparr>codeLanguage := (if strip (drop 3 line) = [] then None else Some (strip (drop 3 line))),
               pageNumber := Some 1\<rparr>],
         md_position := md_position (flush s) + 1\<rparr>"
    using assms(2) fence_not_heading [OF assms(2)] by (simp add: md_line_def Let_def)
  show ?thesis
    unfolding st using g by (simp add: flush_clears)
qed

theorem fence_line_emits_empty_code_block_witness:
  "\<exists>doc. parse_markdown_content example_env (u ''text\<newline>``` py \<newline>x = 1\<newline>```'') (u ''a.md'') = Inr doc \<and>
     startswith (u ''``` py '') (u ''```'') \<and>
     map (\<lambda>b. (content b, codeLanguage b)) (filter (\<lambda>b. type b = u ''code'') (blocks doc)) =
       [([], Some (u ''py'')), ([], None)] \<and>
     map content (md_blocks (md_line (md_init\<lparr>current_paragraph := [u ''text'']\<rparr>) (u ''``` py ''))) =
       [u ''text'', []]"
proof -
  let ?c = "u ''text\<newline>``` py \<newline>x = 1\<newline>```''"
  let ?s = "md_init\<lparr>current_paragraph := [u ''text'']\<rparr>"
  obtain doc where d: "parse_markdown_content example_env ?c (u ''a.md'') = Inr doc"
    by (simp add: parse_markdown_content_def generate_document_id_def Let_def u_def encode_char_def)
  have a: "startswith (u ''``` py '') (u ''```'')"
    by (simp add: py_eval)
  note t = fence_line_emits_empty_code_block [OF d a, of ?s]
  have l: "py_split ?c (u ''\<newline>'') = [u ''text'', u ''``` py '', u ''x = 1'', u ''```'']"
    by (simp add: py_eval)
  from t have "map (\<lambda>b. (content b, codeLanguage b)) (filter (\<lambda>b. type b = u ''code'') (blocks doc)) =
           map (\<lambda>line. ([], if strip (drop 3 line) = [] then None else Some (strip (drop 3 line))))
               (filter (\<lambda>line. startswith line (u ''```'')) (py_split ?c (u ''\<newline>'')))"
    by (rule conjunct1)
  also have "\<dots> = [([], Some (u ''py'')), ([], None)]"
    unfolding l by (simp add: py_eval)
  finally have g: "map (\<lambda>b. (content b, codeLanguage b)) (filter (\<lambda>b. type b = u ''code'') (blocks doc)) =
       [([], Some (u ''py'')), ([], None)]" .
  have f: "md_blocks (flush ?s) = [(new_block (u ''paragraph'') (u ''text'') 0)\<lparr>pageNumber := Some 1\<rparr>]"
    by (simp add: py_eval md_eval)
  from t have "md_blocks (md_line ?s (u ''``` py '')) =
           md_blocks (flush ?s) @
           [(new_block (u ''code'') [] (md_position (flush ?s)))
              \<lparr>codeLanguage := (if strip (drop 3 (u ''``` py '')) = [] then None else Some (strip (drop 3 (u ''``` py '')))),
               pageNumber := Some 1\<rparr>]"
    by simp
  then have m: "map content (md_blocks (md_line ?s (u ''``` py ''))) = [u ''text'', []]"
    unfolding f by (simp add: new_block_def)
  show ?thesis by (rule exI [of _ doc]) (intro conjI d a g m)
qed

section \<open>Markdown normalizer: list lines\<close>

lemma rstrip_Cons: "\<not> isspace c \<Longrightarrow> rstrip (c # cs) = c # rstrip cs"
  by (simp add: rstrip_def dropWhile_append)

lemma strip_Cons: "\<not> isspace c \<Longrightarrow> strip (c # cs) = c # rstrip cs"
  by (simp add: strip_def lstrip_def rstrip_Cons)

lemma list_not_heading_or_fence:
  assumes "is_list_line line"
  shows "\<not> startswith line (u ''#'') \<and> \<not> startswith line (u ''```'')"
proof (cases line)
  case Nil
  then show ?thesis by (simp add: startswith_def u_def)
next
  case (Cons c cs)
  have "c \<noteq> 35 \<and> c \<noteq> 96"
  proof (rule ccontr)
    assume "\<not> (c \<noteq> 35 \<and> c \<noteq> 96)"
    then have c: "c = 35 \<or> c = 96" by simp
    then have "\<not> isspace c" by (auto simp add: isspace_def)
    then have "strip line = c # rstrip cs" unfolding Cons by (rule strip_Cons)
    with assms c show False
      by (auto simp add: is_list_line_def startswith_def u_def isdigit_def digit_ranges_def)
  qed
  then show ?thesis unfolding Cons by (simp add: startswith_def u_def)
qed

lemma list_line_step:
  assumes "is_list_line line"
  shows "md_line s line =
     (flush s)\<lparr>md_blocks := md_blocks (flush s) @
        [(new_block (u ''list'') (strip (lstrip_chars (u ''-*+0123456789. '') (strip line)))
            (md_position (flush s)))
           \<lparr>listType := Some (case strip line of
                                 [] \<Rightarrow> u ''unordered''
                               | c # _ \<Rightarrow> if isdigit c then u ''ordered'' else u ''unordered''),
            listItems := Some [strip (lstrip_chars (u ''-*+0123456789. '') (strip line))],
            pageNumber := Some 1\<rparr>],
       md_position := md_position (flush s) + 1\<rparr>"
  using assms list_not_heading_or_fence [OF assms] by (simp add: md_line_def Let_def)

text \<open>
  Claim C3, at the input \<open>- 2024 plan\<close>: the line is a list item whose own text is
  \<open>2024 plan\<close>; the block emitted for it has the item text \<open>plan\<close>, because
  \<open>lstrip('-*+0123456789. ')\<close> removes every leading character of that set and not only
  the marker.
\<close>

theorem list_item_text_loses_leading_digits:
  "is_list_line (u ''- 2024 plan'') \<and>
   (\<exists>doc. parse_markdown_content example_env (u ''- 2024 plan'') (u ''a.md'') = Inr doc \<and>
      map (\<lambda>b. (type b, listType b, listItems b, content b)) (blocks doc) =
        [(u ''list'', Some (u ''unordered''), Some [u ''plan''], u ''plan'')])"
proof -
  obtain doc where d: "parse_markdown_content example_env (u ''- 2024 plan'') (u ''a.md'') = Inr doc"
    by (simp add: parse_markdown_content_def generate_document_id_def Let_def u_def encode_char_def)
  have b: "map (\<lambda>b. (type b, listType b, listItems b, content b)) (blocks doc) =
        [(u ''list'', Some (u ''unordered''), Some [u ''plan''], u ''plan'')]"
    unfolding parse_markdown_content_blocks [OF d] by (simp add: py_eval md_eval)
  have a: "is_list_line (u ''- 2024 plan'')"
    by (simp add: py_eval md_eval)
  have "\<exists>doc. parse_markdown_content example_env (u ''- 2024 plan'') (u ''a.md'') = Inr doc \<and>
      map (\<lambda>b. (type b, listType b, listItems b, content b)) (blocks doc) =
        [(u ''list'', Some (u ''unordered''), Some [u ''plan''], u ''plan'')]"
    by (rule exI [of _ doc]) (intro conjI d b)
  with a show ?thesis by (rule conjI)
qed

section \<open>Document identifiers\<close>

lemma nat_of_str_of_nat: "nat_of_str (str_of_nat n) = n"
proof (induction n rule: str_of_nat.induct)
  case (1 n)
  show ?case
  proof (cases "n < 10")
    case True
    then show ?thesis by (subst str_of_nat.simps) (simp add: nat_of_str_def)
  next
    case False
    with 1 have "nat_of_str (str_of_nat (n div 10)) = n div 10" by simp
    then show ?thesis using False
      by (subst str_of_nat.simps) (simp add: nat_of_str_def)
  qed
qed

lemma str_of_nat_inj: "str_of_nat m = str_of_nat n \<Longrightarrow> m = n"
  by (metis nat_of_str_of_nat)

lemma str_of_nat_digits: "set (str_of_nat n) \<subseteq> {48..57}"
proof (induction n rule: str_of_nat.induct)
  case (1 n)
  show ?case
  proof (cases "n < 10")
    case True
    then show ?thesis by (subst str_of_nat.simps) simp
  next
    case False
    with 1 have "set (str_of_nat (n div 10)) \<subseteq> {48..57}" by simp
    moreover have "n mod 10 < 10" by simp
    ultimately show ?thesis using False
      by (subst str_of_nat.simps) auto
  qed
qed

lemma str_of_nat_no_minus: "str_of_nat n \<noteq> 45 # s"
proof
  assume "str_of_nat n = 45 # s"
  then have "45 \<in> set (str_of_nat n)" by simp
  with str_of_nat_digits [of n] show False by auto
qed

lemma str_of_int_inj: "str_of_int i = str_of_int j \<Longrightarrow> i = j"
proof -
  assume a: "str_of_int i = str_of_int j"
  consider "i < 0" "j < 0" | "i < 0" "0 \<le> j" | "0 \<le> i" "j < 0" | "0 \<le> i" "0 \<le> j"
    by linarith
  then show "i = j"
  proof cases
    case 1
    with a have "nat (- i) = nat (- j)" by (simp add: str_of_int_def str_of_nat_inj)
    with 1 show ?thesis by simp
  next
    case 2
    with a have "str_of_nat (nat j) = 45 # str_of_nat (nat (- i))" by (simp add: str_of_int_def)
    then show ?thesis using str_of_nat_no_minus by blast
  next
    case 3
    with a have "str_of_nat (nat i) = 45 # str_of_nat (nat (- j))" by (simp add: str_of_int_def)
    then show ?thesis using str_of_nat_no_minus by blast
  next
    case 4
    with a have "nat i = nat j" by (simp add: str_of_int_def str_of_nat_inj)
    with 4 show ?thesis by simp
  qed
qed

lemma generate_document_id_eq:
  assumes "encode fname = Inr fb"
  shows "generate_document_id e content_bytes fname =
           Inr (u ''doc_'' @ str_of_int (int_of_float (time_time e)) @ u ''_''
                @ take 12 (sha256_hexdigest e (content_bytes @ fb)))"
  using assms by (simp add: generate_document_id_def hasher_update_def Let_def)

text \<open>
  Claim C8. The identifier is \<open>doc_\<close>, the clock reading truncated to whole seconds, an
  underscore and the first 12 characters of the hexadecimal SHA-256 digest of the content
  bytes followed by the encoded file name. A second run on the same content and file name
  gives the same identifier when its clock reading falls in the same second, and
  otherwise a different identifier that differs only in the seconds between \<open>doc_\<close> and
  the rest.
\<close>

theorem document_id_format_and_stability:
  assumes "encode fname = Inr fb"
  shows "generate_document_id e content_bytes fname =
           Inr (u ''doc_'' @ str_of_int (int_of_float (time_time e)) @ u ''_''
                @ take 12 (sha256_hexdigest e (content_bytes @ fb))) \<and>
         (int_of_float t' = int_of_float (time_time e) \<longrightarrow>
            generate_document_id (e\<lparr>time_time := t'\<rparr>) content_bytes fname =
            generate_document_id e content_bytes fname) \<and>
         (int_of_float t' \<noteq> int_of_float (time_time e) \<longrightarrow>
            generate_document_id (e\<lparr>time_time := t'\<rparr>) content_bytes fname \<noteq>
            generate_document_id e content_bytes fname \<and>
            (\<exists>rest.
               generate_document_id e content_bytes fname =
                 Inr (u ''doc_'' @ str_of_int (int_of_float (time_time e)) @ rest) \<and>
               generate_document_id (e\<lparr>time_time := t'\<rparr>) content_bytes fname =
                 Inr (u ''doc_'' @ str_of_int (int_of_float t') @ rest)))"
proof -
  let ?rest = "u ''_'' @ take 12 (sha256_hexdigest e (content_bytes @ fb))"
  have a: "generate_document_id e content_bytes fname =
      Inr (u ''doc_'' @ str_of_int (int_of_float (time_time e)) @ ?rest)"
    using assms by (rule generate_document_id_eq)
  have b: "generate_document_id (e\<lparr>time_time := t'\<rparr>) content_bytes fname =
      Inr (u ''doc_'' @ str_of_int (int_of_float t') @ ?rest)"
    using generate_document_id_eq [OF assms, of "e\<lparr>time_time := t'\<rparr>" content_bytes] by simp
  have c: "generate_document_id (e\<lparr>time_time := t'\<rparr>) content_bytes fname \<noteq>
            generate_document_id e content_bytes fname"
    if "int_of_float t' \<noteq> int_of_float (time_time e)"
  proof
    assume "generate_document_id (e\<lparr>time_time := t'\<rparr>) content_bytes fname =
            generate_document_id e content_bytes fname"
    then have "str_of_int (int_of_float t') @ ?rest = str_of_int (int_of_float (time_time e)) @ ?rest"
      unfolding a b by simp
    then have "str_of_int (int_of_float t') = str_of_int (int_of_float (time_time e))"
      by (simp only: append_same_eq)
    then show False using that by (auto dest: str_of_int_inj)
  qed
  show ?thesis
  proof (intro conjI impI)
    show "generate_document_id e content_bytes fname =
           Inr (u ''doc_'' @ str_of_int (int_of_float (time_time e)) @ u ''_''
                @ take 12 (sha256_hexdigest e (content_bytes @ fb)))"
      by (rule a)
  next
    assume "int_of_float t' = int_of_float (time_time e)"
    then show "generate_document_id (e\<lparr>time_time := t'\<rparr>) content_bytes fname =
            generate_document_id e content_bytes fname"
      unfolding a b by simp
  next
    assume "int_of_float t' \<noteq> int_of_float (time_time e)"
    then show "generate_document_id (e\<lparr>time_time := t'\<rparr>) content_bytes fname \<noteq>
            generate_document_id e content_bytes fname"
      by (rule c)
  next
    show "\<exists>rest.
               generate_document_id e content_bytes fname =
                 Inr (u ''doc_'' @ str_of_int (int_of_float (time_time e)) @ rest) \<and>
               generate_document_id (e\<lparr>time_time := t'\<rparr>) content_bytes fname =
                 Inr (u ''doc_'' @ str_of_int (int_of_float t') @ rest)"
      by (rule exI [of _ ?rest]) (intro conjI a b)
  qed
qed

lemma str_of_int_1700000000: "str_of_int 1700000000 = u ''1700000000''"
  by (simp add: str_of_int_def u_def str_of_nat.simps)

lemma str_of_int_1700000001: "str_of_int 1700000001 = u ''1700000001''"
  by (simp add: str_of_int_def u_def str_of_nat.simps)

theorem document_id_format_and_stability_witness:
  "encode (u ''a.md'') = Inr [97, 46, 109, 100] \<and>
   generate_document_id example_env [104, 105] (u ''a.md'') = Inr (u ''doc_1700000000_2cf24dba5fb0'') \<and>
   generate_document_id (example_env\<lparr>time_time := 1700000000\<rparr>) [104, 105] (u ''a.md'') =
     generate_document_id example_env [104, 105] (u ''a.md'') \<and>
   generate_document_id (example_env\<lparr>time_time := 1700000001\<rparr>) [104, 105] (u ''a.md'') =
     Inr (u ''doc_1700000001_2cf24dba5fb0'')"
proof -
  have f: "encode (u ''a.md'') = Inr [97, 46, 109, 100]"
    by (simp add: u_def encode_char_def)
  have t0: "int_of_float (time_time example_env) = 1700000000"
    by (simp add: example_env_def int_of_float_def) linarith
  have t1: "int_of_float 1700000000 = 1700000000" and t2: "int_of_float 1700000001 = 1700000001"
    by (simp_all add: int_of_float_def)
  have h: "take 12 (sha256_hexdigest example_env bs) = u ''2cf24dba5fb0''" for bs
    by (simp add: example_env_def u_def)
  note a = document_id_format_and_stability [OF f, of example_env "[104, 105]" 1700000000]
  note b = document_id_format_and_stability [OF f, of example_env "[104, 105]" 1700000001]
  from a have 1: "generate_document_id example_env [104, 105] (u ''a.md'') = Inr (u ''doc_1700000000_2cf24dba5fb0'')"
    unfolding t0 h str_of_int_1700000000 by (simp add: u_def)
  from a have 2: "generate_document_id (example_env\<lparr>time_time := 1700000000\<rparr>) [104, 105] (u ''a.md'') =
     generate_document_id example_env [104, 105] (u ''a.md'')"
    unfolding t0 t1 by simp
  from b obtain rest where
    r1: "generate_document_id example_env [104, 105] (u ''a.md'') = Inr (u ''doc_'' @ str_of_int 1700000000 @ rest)"
    and r2: "generate_document_id (example_env\<lparr>time_time := 1700000001\<rparr>) [104, 105] (u ''a.md'') =
         Inr (u ''doc_'' @ str_of_int 1700000001 @ rest)"
    unfolding t0 t2 by auto
  from r1 1 have "rest = u ''_2cf24dba5fb0''"
    unfolding str_of_int_1700000000 by (simp add: u_def)
  with r2 have 3: "generate_document_id (example_env\<lparr>time_time := 1700000001\<rparr>) [104, 105] (u ''a.md'') =
     Inr (u ''doc_1700000001_2cf24dba5fb0'')"
    unfolding str_of_int_1700000001 by (simp add: u_def)
  show ?thesis by (intro conjI f 1 2 3)
qed

section \<open>HTML normalizer: warnings and success\<close>

lemmas html_eval = html_try_def find_def find_all_def find_all_children_def html_element_def
  html_table_def html_row_def html_cell_def html_md_line_def md_row_def get_text_def
  get_text_sep_def lower_def lower_char_def int_of_char_def new_block_def Let_def

lemma html_element_returns:
  assumes "is_named [u ''h1'', u ''h2'', u ''h3'', u ''h4'', u ''h5'', u ''h6'', u ''p'',
                     u ''table'', u ''pre'', u ''code'', u ''ul'', u ''ol''] el"
  shows "\<exists>s'. html_element s el = Inr s'"
proof (cases el)
  case (Text t)
  with assms show ?thesis by simp
next
  case (Tag n c kids)
  with assms have "n \<in> set [u ''h1'', u ''h2'', u ''h3'', u ''h4'', u ''h5'', u ''h6'', u ''p'',
                     u ''table'', u ''pre'', u ''code'', u ''ul'', u ''ol'']" by simp
  then consider "n = u ''h1''" | "n = u ''h2''" | "n = u ''h3''" | "n = u ''h4''" | "n = u ''h5''"
    | "n = u ''h6''" | "n = u ''p''" | "n = u ''table''" | "n = u ''pre''" | "n = u ''code''"
    | "n = u ''ul''" | "n = u ''ol''" by auto
  then show ?thesis
    by cases
      (simp_all add: Tag html_element_def lower_def lower_char_def u_def startswith_def
        int_of_char_def Let_def)
qed

lemma fold_exc_returns:
  assumes "\<And>s x. x \<in> set xs \<Longrightarrow> \<exists>s'. f s x = Inr s'"
  shows "\<exists>s'. fold_exc f s xs = Inr s'"
  using assms
proof (induction xs arbitrary: s)
  case Nil
  then show ?case by simp
next
  case (Cons x xs)
  then obtain s1 where "f s x = Inr s1" by (meson list.set_intros(1))
  with Cons show ?case by simp
qed

lemma html_try_returns: "\<exists>r. html_try soup = Inr r"
proof -
  let ?names = "[u ''h1'', u ''h2'', u ''h3'', u ''h4'', u ''h5'', u ''h6'', u ''p'',
                 u ''table'', u ''pre'', u ''code'', u ''ul'', u ''ol'']"
  have "\<exists>s'. fold_exc html_element s (find_all ?names body) = Inr s'" for s body
    by (rule fold_exc_returns) (simp add: find_all_def html_element_returns)
  then show ?thesis
    unfolding html_try_def Let_def
    by (metis (no_types, lifting) sum.simps(6))
qed




lemma parse_html_content_returns:
  assumes "encode content_str = Inr cb" and "encode fname = Inr fb"
    and "bs = None \<or> (\<exists>BeautifulSoup soup. bs = Some BeautifulSoup \<and> BeautifulSoup content_str = Some soup)"
  shows "\<exists>doc. parse_html_content e bs content_str fname = Inr doc"
proof (cases bs)
  case None
  with assms(1,2) show ?thesis
    by (simp add: parse_html_content_def generate_document_id_def Let_def)
next
  case (Some BeautifulSoup)
  with assms(3) obtain soup where s: "BeautifulSoup content_str = Some soup" by auto
  obtain r where r: "html_try soup = Inr r" using html_try_returns by blast
  from assms(1,2) Some s r show ?thesis
    by (simp add: parse_html_content_def generate_document_id_def Let_def split: prod.splits)
qed


section \<open>HTML normalizer: the table of the example\<close>

lemma parse_html_content_blocks:
  assumes "parse_html_content e (Some BeautifulSoup) content_str fname = Inr doc"
    and "BeautifulSoup content_str = Some soup"
    and "html_try soup = Inr (title_v, s, full_text)"
  shows "blocks doc = html_blocks s"
  using assms
  by (auto simp add: parse_html_content_def Let_def split: sum.splits)

lemma example_table_try:
  "html_try example_table =
     Inr (None,
          \<lparr>html_blocks =
             [(new_block (u ''table'') (u ''| A | B |\<newline>| --- | --- |\<newline>| 1 | 2 |'') 0)
                \<lparr>table := Some
                   \<lparr>rows = 2, cols = 2, headers = [u ''A'', u ''B''],
                    cells =
                      [\<lparr>cell_content = u ''A'', row = 0, col = 0, rowSpan = 1, colSpan = 1, isHeader = True\<rparr>,
                       \<lparr>cell_content = u ''B'', row = 0, col = 1, rowSpan = 1, colSpan = 1, isHeader = True\<rparr>,
                       \<lparr>cell_content = u ''1'', row = 1, col = 0, rowSpan = 1, colSpan = 1, isHeader = False\<rparr>,
                       \<lparr>cell_content = u ''2'', row = 1, col = 1, rowSpan = 1, colSpan = 1, isHeader = False\<rparr>],
                    markdown = u ''| A | B |\<newline>| --- | --- |\<newline>| 1 | 2 |'',
                    hasHeader = True\<rparr>,
                 pageNumber := Some 1\<rparr>],
           html_position = 1, html_outline = []\<rparr>,
          u ''A\<newline>B\<newline>1\<newline>2'')"
  by (simp add: example_table_def html_eval py_eval numeral_2_eq_2 upt_conv_Cons)

text \<open>
  Claim C2. For the document
  \<open><table><tr><th>A</th><th>B</th></tr><tr><td>1</td><td>2</td></tr></table>\<close>, whose tree
  is \<open>example_table\<close>, the HTML normalizer emits one table block: headers A and B,
  hasHeader set, two cells in row 0 that are both header cells, two cells in row 1 that
  are both not, and the markdown \<open>| A | B |\<close>, \<open>| --- | --- |\<close>, \<open>| 1 | 2 |\<close> joined by
  newlines.
\<close>

theorem html_example_table:
  assumes "BeautifulSoup example_html = Some example_table"
    and "parse_html_content e (Some BeautifulSoup) example_html fname = Inr doc"
  shows "\<exists>b t. blocks doc = [b] \<and> type b = u ''table'' \<and> table b = Some t \<and>
           headers t = [u ''A'', u ''B''] \<and> hasHeader t \<and>
           map isHeader (filter (\<lambda>c. row c = 0) (cells t)) = [True, True] \<and>
           map isHeader (filter (\<lambda>c. row c = 1) (cells t)) = [False, False] \<and>
           markdown t = u ''| A | B |\<newline>| --- | --- |\<newline>| 1 | 2 |''"
  unfolding parse_html_content_blocks [OF assms(2) assms(1) example_table_try]
  by (simp add: new_block_def)

theorem html_example_table_witness:
  "\<exists>doc b t. parse_html_content example_env (Some (\<lambda>c. Some example_table)) example_html (u ''a.html'') = Inr doc \<and>
     blocks doc = [b] \<and> table b = Some t \<and> headers t = [u ''A'', u ''B''] \<and>
     markdown t = u ''| A | B |\<newline>| --- | --- |\<newline>| 1 | 2 |''"
proof -
  have c: "encode example_html = Inr (map of_nat example_html)"
    by (simp add: example_html_def u_def encode_char_def)
  have f: "encode (u ''a.html'') = Inr (map of_nat (u ''a.html''))"
    by (simp add: u_def encode_char_def)
  obtain doc where d: "parse_html_content example_env (Some (\<lambda>c. Some example_table)) example_html (u ''a.html'') = Inr doc"
    using parse_html_content_returns [OF c f, of "Some (\<lambda>c. Some example_table)" example_env] by auto
  have "(\<lambda>c. Some example_table) example_html = Some example_table" by simp
  from html_example_table [OF this d] obtain b t where
    "blocks doc = [b]" "table b = Some t" "headers t = [u ''A'', u ''B'']"
    "markdown t = u ''| A | B |\<newline>| --- | --- |\<newline>| 1 | 2 |''" by blast
  with d show ?thesis by blast
qed

section \<open>Delegated binary normalizer: one table that cannot be converted\<close>

lemma docling_text_warnings: "dl_warnings (docling_text s item) = dl_warnings s"
  by (simp add: docling_text_def Let_def)

lemma docling_texts_warnings: "dl_warnings (foldl docling_text s items) = dl_warnings s"
  by (induction items arbitrary: s) (simp_all add: docling_text_warnings)

lemma docling_table_step_failed:
  "docling_convert_table tbl = Inl msg \<Longrightarrow>
   docling_table_step s (i, tbl) =
     s\<lparr>dl_warnings := dl_warnings s @
          [\<lparr>code = u ''TABLE_EXTRACTION_FAILED'',
            message = u ''Failed to extract table '' @ str_of_nat i @ u '': '' @ msg,
            warning_pageNumber = None, warning_position = None,
            severity = u ''warning''\<rparr>]\<rparr>"
  by (simp add: docling_table_step_def)

lemma docling_table_step_index:
  "docling_convert_table tbl = Inr r \<Longrightarrow>
   docling_table_step s (i, tbl) = docling_table_step s (j, tbl)"
  by (simp add: docling_table_step_def split: option.splits)

lemma docling_table_step_warnings:
  "docling_convert_table tbl = Inr r \<Longrightarrow>
   docling_table_step (s\<lparr>dl_warnings := w\<rparr>) (i, tbl) = (docling_table_step s (i, tbl))\<lparr>dl_warnings := w\<rparr>"
  by (simp add: docling_table_step_def split: option.splits)

lemma docling_tables_shift:
  assumes "\<forall>t \<in> set ts. \<exists>r. docling_convert_table t = Inr r"
  shows "foldl docling_table_step s (enumerate n ts) = foldl docling_table_step s (enumerate m ts)"
  using assms
proof (induction ts arbitrary: s n m)
  case Nil
  then show ?case by simp
next
  case (Cons t ts)
  then obtain r where "docling_convert_table t = Inr r" by auto
  then have "docling_table_step s (n, t) = docling_table_step s (m, t)"
    by (rule docling_table_step_index)
  with Cons show ?case by simp
qed

lemma docling_tables_warnings:
  assumes "\<forall>t \<in> set ts. \<exists>r. docling_convert_table t = Inr r"
  shows "foldl docling_table_step (s\<lparr>dl_warnings := w\<rparr>) (enumerate n ts) =
         (foldl docling_table_step s (enumerate n ts))\<lparr>dl_warnings := w\<rparr>"
  using assms
proof (induction ts arbitrary: s n)
  case Nil
  then show ?case by simp
next
  case (Cons t ts)
  then obtain r where "docling_convert_table t = Inr r" by auto
  then have "docling_table_step (s\<lparr>dl_warnings := w\<rparr>) (n, t) =
             (docling_table_step s (n, t))\<lparr>dl_warnings := w\<rparr>"
    by (rule docling_table_step_warnings)
  with Cons show ?case by simp
qed

lemma docling_tables_no_warning:
  assumes "\<forall>t \<in> set ts. \<exists>r. docling_convert_table t = Inr r"
  shows "dl_warnings (foldl docling_table_step s (enumerate n ts)) = dl_warnings s"
  using assms
proof (induction ts arbitrary: s n)
  case Nil
  then show ?case by simp
next
  case (Cons t ts)
  then obtain r where "docling_convert_table t = Inr r" by auto
  then have "dl_warnings (docling_table_step s (n, t)) = dl_warnings s"
    by (simp add: docling_table_step_def split: option.splits)
  with Cons show ?case by simp
qed

lemma docling_one_failure:
  assumes bad: "docling_convert_table bad = Inl msg"
    and ok: "\<forall>t \<in> set (ts1 @ ts2). \<exists>r. docling_convert_table t = Inr r"
  shows "foldl docling_table_step s (enumerate 0 (ts1 @ [bad] @ ts2)) =
         (foldl docling_table_step s (enumerate 0 (ts1 @ ts2)))
           \<lparr>dl_warnings := dl_warnings s @
              [\<lparr>code = u ''TABLE_EXTRACTION_FAILED'',
                message = u ''Failed to extract table '' @ str_of_nat (length ts1) @ u '': '' @ msg,
                warning_pageNumber = None, warning_position = None,
                severity = u ''warning''\<rparr>]\<rparr>"
proof -
  let ?w = "\<lparr>code = u ''TABLE_EXTRACTION_FAILED'',
                message = u ''Failed to extract table '' @ str_of_nat (length ts1) @ u '': '' @ msg,
                warning_pageNumber = None, warning_position = None,
                severity = u ''warning''\<rparr>"
  let ?S = "foldl docling_table_step s (enumerate 0 ts1)"
  from ok have ok1: "\<forall>t \<in> set ts1. \<exists>r. docling_convert_table t = Inr r"
    and ok2: "\<forall>t \<in> set ts2. \<exists>r. docling_convert_table t = Inr r" by auto
  have w1: "dl_warnings ?S = dl_warnings s"
    using ok1 by (rule docling_tables_no_warning)
  have "foldl docling_table_step s (enumerate 0 (ts1 @ [bad] @ ts2)) =
        foldl docling_table_step (docling_table_step ?S (length ts1, bad))
          (enumerate (Suc (length ts1)) ts2)"
    by (simp add: enumerate_append_eq)
  also have "\<dots> = foldl docling_table_step (?S\<lparr>dl_warnings := dl_warnings s @ [?w]\<rparr>)
          (enumerate (Suc (length ts1)) ts2)"
    by (simp add: docling_table_step_failed [OF bad] w1)
  also have "\<dots> = (foldl docling_table_step ?S (enumerate (Suc (length ts1)) ts2))
                     \<lparr>dl_warnings := dl_warnings s @ [?w]\<rparr>"
    using ok2 by (rule docling_tables_warnings)
  also have "foldl docling_table_step ?S (enumerate (Suc (length ts1)) ts2) =
             foldl docling_table_step ?S (enumerate (length ts1) ts2)"
    using ok2 by (rule docling_tables_shift)
  also have "\<dots> = foldl docling_table_step s (enumerate 0 (ts1 @ ts2))"
    by (simp add: enumerate_append_eq)
  finally show ?thesis .
qed

lemma parse_with_docling_fields:
  assumes "parse_with_docling e True (Some cv) file_content fname options = Inr doc"
    and "convert cv file_content (lower (path_suffix fname)) = Inr doc_in"
  shows "blocks doc = dl_blocks (docling_process options doc_in)"
    and "warnings doc = dl_warnings (docling_process options doc_in)"
    and "outline doc = dl_outline (docling_process options doc_in)"
    and "success doc"
  using assms
  by (auto simp add: parse_with_docling_def Let_def split: sum.splits)

lemma parse_with_docling_returns:
  assumes "convert cv file_content (lower (path_suffix fname)) = Inr doc_in"
    and "encode fname = Inr fb"
  shows "\<exists>doc. parse_with_docling e True (Some cv) file_content fname options = Inr doc"
  using assms
  by (simp add: parse_with_docling_def generate_document_id_def Let_def)

text \<open>
  Claim C6. When the backend call succeeds, table extraction is requested and exactly
  one tabular object of the converted document fails to convert, the document has
  exactly one warning, with code TABLE_EXTRACTION_FAILED, its blocks are exactly the
  blocks of the same converted document without that tabular object (the same blocks in
  the same order), and its success flag is set.
\<close>

theorem docling_one_failed_table:
  assumes "convert cv file_content (lower (path_suffix fname)) = Inr doc_in"
    and "tables doc_in = Some (ts1 @ [bad] @ ts2)"
    and "extractTables options"
    and "docling_convert_table bad = Inl msg"
    and "\<forall>t \<in> set (ts1 @ ts2). \<exists>r. docling_convert_table t = Inr r"
    and "parse_with_docling e True (Some cv) file_content fname options = Inr doc"
  shows "map code (warnings doc) = [u ''TABLE_EXTRACTION_FAILED''] \<and>
         map severity (warnings doc) = [u ''warning''] \<and>
         blocks doc = dl_blocks (docling_process options (doc_in\<lparr>tables := Some (ts1 @ ts2)\<rparr>)) \<and>
         dl_warnings (docling_process options (doc_in\<lparr>tables := Some (ts1 @ ts2)\<rparr>)) = [] \<and>
         success doc"
proof -
  let ?s0 = "\<lparr>dl_blocks = [], dl_position = 0, dl_outline = [], dl_warnings = []\<rparr>"
  let ?s1 = "case texts doc_in of None \<Rightarrow> ?s0 | Some ts \<Rightarrow> foldl docling_text ?s0 ts"
  have w1: "dl_warnings ?s1 = []"
    by (simp add: docling_texts_warnings split: option.splits)
  have p: "docling_process options doc_in =
           foldl docling_table_step ?s1 (enumerate 0 (ts1 @ [bad] @ ts2))"
    using assms(2,3) by (simp add: docling_process_def Let_def)
  have q: "docling_process options (doc_in\<lparr>tables := Some (ts1 @ ts2)\<rparr>) =
           foldl docling_table_step ?s1 (enumerate 0 (ts1 @ ts2))"
    using assms(3) by (simp add: docling_process_def Let_def)
  have wq: "dl_warnings (docling_process options (doc_in\<lparr>tables := Some (ts1 @ ts2)\<rparr>)) = []"
    unfolding q using docling_tables_no_warning [OF assms(5), of ?s1 0] w1 by simp
  note f = parse_with_docling_fields [OF assms(6) assms(1)]
  have pq: "docling_process options doc_in =
      (docling_process options (doc_in\<lparr>tables := Some (ts1 @ ts2)\<rparr>))
         \<lparr>dl_warnings := dl_warnings ?s1 @
              [\<lparr>code = u ''TABLE_EXTRACTION_FAILED'',
                message = u ''Failed to extract table '' @ str_of_nat (length ts1) @ u '': '' @ msg,
                warning_pageNumber = None, warning_position = None,
                severity = u ''warning''\<rparr>]\<rparr>"
    unfolding p q by (rule docling_one_failure [OF assms(4) assms(5)])
  show ?thesis
    unfolding f(1) f(2) using f(4) wq by (simp add: pq w1)
qed

lemmas docling_eval = docling_process_def docling_text_def docling_table_step_def
  docling_convert_table_def docling_frame_def docling_row_def docling_value_def
  docling_header_cells_def md_row_def lower_def lower_char_def new_block_def Let_def

theorem docling_one_failed_table_witness:
  "\<exists>doc. parse_with_docling example_env True (Some example_converter) [37, 80, 68, 70] (u ''a.pdf'')
            example_options = Inr doc \<and>
     map code (warnings doc) = [u ''TABLE_EXTRACTION_FAILED''] \<and>
     map type (blocks doc) = [u ''paragraph'', u ''table''] \<and>
     map position (blocks doc) = [0, 1] \<and> success doc"
proof -
  let ?bad = "\<lparr>export_to_dataframe = Inl (u ''boom''), table_page_no = None\<rparr>"
  let ?good = "\<lparr>export_to_dataframe = Inr (Some example_frame), table_page_no = None\<rparr>"
  have c: "convert example_converter [37, 80, 68, 70] (lower (path_suffix (u ''a.pdf''))) = Inr example_document"
    by (simp add: example_converter_def)
  have t: "tables example_document = Some ([] @ [?bad] @ [?good])"
    by (simp add: example_document_def)
  have x: "extractTables example_options"
    by (simp add: example_options_def)
  have b: "docling_convert_table ?bad = Inl (u ''boom'')"
    by (simp add: docling_convert_table_def)
  have g: "\<forall>t \<in> set ([] @ [?good]). \<exists>r. docling_convert_table t = Inr r"
    by (simp add: docling_eval example_frame_def)
  have f: "encode (u ''a.pdf'') = Inr (map of_nat (u ''a.pdf''))"
    by (simp add: u_def encode_char_def)
  obtain doc where d: "parse_with_docling example_env True (Some example_converter) [37, 80, 68, 70]
      (u ''a.pdf'') example_options = Inr doc"
    using parse_with_docling_returns [OF c f] by blast
  note r = docling_one_failed_table [OF c t x b g d]
  have e1: "map type
             (dl_blocks (docling_process example_options (example_document\<lparr>tables := Some ([] @ [?good])\<rparr>))) =
           [u ''paragraph'', u ''table'']"
    by (simp add: docling_eval example_document_def example_options_def example_frame_def py_eval)
  have e2: "map position
             (dl_blocks (docling_process example_options (example_document\<lparr>tables := Some ([] @ [?good])\<rparr>))) =
           [0, 1]"
    by (simp add: docling_eval example_document_def example_options_def example_frame_def py_eval)
  from r have bl: "blocks doc =
      dl_blocks (docling_process example_options (example_document\<lparr>tables := Some ([] @ [?good])\<rparr>))"
    by simp
  have 1: "map type (blocks doc) = [u ''paragraph'', u ''table'']"
    unfolding bl by (rule e1)
  have 2: "map position (blocks doc) = [0, 1]"
    unfolding bl by (rule e2)
  from r have 3: "map code (warnings doc) = [u ''TABLE_EXTRACTION_FAILED'']" and 4: "success doc"
    by simp_all
  show ?thesis by (rule exI [of _ doc]) (intro conjI d 3 1 2 4)
qed

section \<open>Table structures\<close>

lemma grid_rows: "(i, j) \<in> set (grid n ms) \<Longrightarrow> int n \<le> i"
proof (induction ms arbitrary: n)
  case Nil
  then show ?case by simp
next
  case (Cons m ms)
  then show ?case by fastforce
qed


lemma grid_filter_first:
  "filter (\<lambda>p. fst p = int n) (grid n (m # ms)) = map (\<lambda>j. (int n, int j)) [0..<m]"
proof -
  have "filter (\<lambda>p. fst p = int n) (grid (Suc n) ms) = []"
    using grid_rows [of _ _ "Suc n" ms] by (fastforce simp add: filter_empty_conv)
  then show ?thesis by (simp add: filter_map o_def)
qed




































section \<open>Decoding with replacement never fails\<close>

lemma decode_from_replace_returns: "\<exists>s. decode_from Replace bs = Inr s"
proof (induction bs rule: length_induct)
  case (1 bs)
  show ?case
  proof (cases bs)
    case Nil
    then show ?thesis by simp
  next
    case (Cons b rest)
    have ih: "\<exists>s. decode_from Replace (drop k rest) = Inr s" for k
      using 1 Cons by simp
    show ?thesis
    proof (cases "utf8_next (b # rest)")
      case (Decoded cp k)
      obtain s where "decode_from Replace (drop (k - 1) rest) = Inr s"
        using ih by blast
      with Decoded show ?thesis unfolding Cons by simp
    next
      case (Invalid k)
      obtain s where "decode_from Replace (drop (k - 1) rest) = Inr s"
        using ih by blast
      with Invalid show ?thesis unfolding Cons by simp
    qed
  qed
qed

lemma utf8_next_scalar:
  assumes "utf8_next bs = Decoded cp k"
  shows "is_scalar cp"
proof -
  have "is_scalar cp"
    if "cp = (b0 - 224) * 4096 + (b1 - 128) * 64 + (b2 - 128)"
      and "224 \<le> b0" "b0 < 240" "is_continuation b1" "is_continuation b2"
      and "\<not> (b0 = 224 \<and> b1 < 160)" "\<not> (b0 = 237 \<and> 160 \<le> b1)"
    for b0 b1 b2 :: nat
  proof -
    consider "b0 \<le> 236" | "b0 = 237" | "238 \<le> b0" by linarith
    then show ?thesis
      using that by cases (auto simp add: is_scalar_def is_continuation_def)
  qed
  moreover have "is_scalar cp"
    if "cp = (b0 - 240) * 262144 + (b1 - 128) * 4096 + (b2 - 128) * 64 + (b3 - 128)"
      and "240 \<le> b0" "b0 < 245" "is_continuation b1" "is_continuation b2" "is_continuation b3"
      and "\<not> (b0 = 240 \<and> b1 < 144)" "\<not> (b0 = 244 \<and> 144 \<le> b1)"
    for b0 b1 b2 b3 :: nat
  proof -
    from that(2,3) have "b0 = 240 \<or> (241 \<le> b0 \<and> b0 \<le> 243) \<or> b0 = 244" by linarith
    then consider "b0 = 240" | "241 \<le> b0 \<and> b0 \<le> 243" | "b0 = 244" by blast
    then show ?thesis
      using that by cases (auto simp add: is_scalar_def is_continuation_def)
  qed
  moreover have "is_scalar cp"
    if "cp = (b0 - 192) * 64 + (b1 - 128)" and "b0 < 224" "is_continuation b1"
    for b0 b1 :: nat
    using that by (auto simp add: is_scalar_def is_continuation_def)
  moreover have "is_scalar cp" if "cp < 128"
    using that by (simp add: is_scalar_def)
  ultimately show ?thesis
    using assms
    by (auto simp add: utf8_next_def Let_def split: if_splits)
qed

lemma decode_from_replace_scalar:
  "decode_from Replace bs = Inr s \<Longrightarrow> \<forall>c \<in> set s. is_scalar c"
proof (induction bs arbitrary: s rule: length_induct)
  case (1 bs)
  show ?case
  proof (cases bs)
    case Nil
    with 1 show ?thesis by simp
  next
    case (Cons b rest)
    have ih: "\<forall>c \<in> set s'. is_scalar c" if "decode_from Replace (drop k rest) = Inr s'" for k s'
      using 1(1) [rule_format, of "drop k rest" s'] Cons that by simp
    show ?thesis
    proof (cases "utf8_next (b # rest)")
      case (Decoded cp k)
      with 1(2) Cons obtain s' where "decode_from Replace (drop (k - 1) rest) = Inr s'" and "s = cp # s'"
        by (auto split: sum.splits)
      with ih utf8_next_scalar [OF Decoded] show ?thesis by auto
    next
      case (Invalid k)
      with 1(2) Cons obtain s' where "decode_from Replace (drop (k - 1) rest) = Inr s'" and "s = 65533 # s'"
        by (auto split: sum.splits)
      with ih show ?thesis by (auto simp add: is_scalar_def)
    qed
  qed
qed

lemma encode_char_scalar: "is_scalar c \<Longrightarrow> \<exists>b. encode_char c = Inr b"
  by (auto simp add: is_scalar_def encode_char_def)

lemma encode_scalars: "\<forall>c \<in> set s. is_scalar c \<Longrightarrow> \<exists>b. encode s = Inr b"
proof (induction s)
  case Nil
  then show ?case by simp
next
  case (Cons c s)
  then obtain b bs where "encode_char c = Inr b" and "encode s = Inr bs"
    using encode_char_scalar [of c] by auto
  then show ?case by simp
qed

lemma decode_replace_encodable:
  "\<exists>s b. decode Replace file_content = Inr s \<and> encode s = Inr b"
proof -
  obtain s where s: "decode Replace file_content = Inr s"
    unfolding decode_def using decode_from_replace_returns by blast
  then have "\<forall>c \<in> set s. is_scalar c"
    unfolding decode_def by (rule decode_from_replace_scalar)
  then obtain b where "encode s = Inr b" using encode_scalars by blast
  with s show ?thesis by blast
qed

lemma encode_raises: "encode s = Inl err \<Longrightarrow> err = UnicodeEncodeError"
proof (induction s)
  case Nil
  then show ?case by simp
next
  case (Cons c s)
  then show ?case
    by (auto simp add: encode_char_def split: sum.splits if_splits)
qed

lemma parse_markdown_content_raises:
  assumes "encode content_str = Inr cb" and "encode fname = Inl err"
  shows "parse_markdown_content e content_str fname = Inl err"
  using assms by (simp add: parse_markdown_content_def generate_document_id_def Let_def)

lemma parse_txt_content_raises:
  assumes "encode content_str = Inr cb" and "encode fname = Inl err"
  shows "parse_txt_content e content_str fname = Inl err"
  using assms by (simp add: parse_txt_content_def generate_document_id_def Let_def)

lemma parse_html_content_rejected:
  assumes "BeautifulSoup content_str = None"
  shows "parse_html_content e (Some BeautifulSoup) content_str fname = Inl ParserRejectedMarkup"
  using assms by (simp add: parse_html_content_def)

lemma parse_html_content_raises:
  assumes "encode content_str = Inr cb" and "encode fname = Inl err"
    and "bs = None \<or> (\<exists>BeautifulSoup soup. bs = Some BeautifulSoup \<and> BeautifulSoup content_str = Some soup)"
  shows "parse_html_content e bs content_str fname = Inl err"
proof (cases bs)
  case None
  with assms(1,2) show ?thesis
    by (simp add: parse_html_content_def generate_document_id_def Let_def)
next
  case (Some BeautifulSoup)
  with assms(3) obtain soup where s: "BeautifulSoup content_str = Some soup" by auto
  obtain r where r: "html_try soup = Inr r" using html_try_returns by blast
  from assms(1,2) Some s r show ?thesis
    by (simp add: parse_html_content_def generate_document_id_def Let_def split: prod.splits)
qed

lemma parse_native:
  assumes "b64decode (fileContent request) = Inr file_content"
    and "length file_content \<le> MAX_FILE_SIZE"
    and "get_format_from_filename (request_filename request) = Some fmt"
    and "fmt \<in> {u ''md'', u ''txt'', u ''html''}"
    and "decode Replace file_content = Inr content_str"
  shows "parse e b64decode bs DOCLING_AVAILABLE conv request =
           (case (if fmt = u ''md'' then parse_markdown_content e content_str (request_filename request)
                  else if fmt = u ''txt'' then parse_txt_content e content_str (request_filename request)
                  else parse_html_content e bs content_str (request_filename request)) of
              Inr doc \<Rightarrow> Returned \<lparr>response_success = success doc, document = Some doc, error = None\<rparr>
            | Inl err \<Rightarrow> Returned \<lparr>response_success = False, document = None, error = Some err\<rparr>)"
proof -
  have sz: "\<not> length file_content > MAX_FILE_SIZE" using assms(2) by simp
  have ne: "u ''txt'' \<noteq> u ''md''" "u ''txt'' \<noteq> u ''markdown''"
    "u ''html'' \<noteq> u ''md''" "u ''html'' \<noteq> u ''markdown''" "u ''html'' \<noteq> u ''txt''"
    by (simp_all add: u_def)
  from assms(4) consider "fmt = u ''md''" | "fmt = u ''txt''" | "fmt = u ''html''" by blast
  then show ?thesis
  proof cases
    case 1
    with assms(1,3,5) sz show ?thesis by (simp add: parse_def Let_def)
  next
    case 2
    with assms(1,3,5) sz ne show ?thesis by (simp add: parse_def Let_def)
  next
    case 3
    with assms(1,3,5) sz ne show ?thesis by (simp add: parse_def Let_def)
  qed
qed

text \<open>
  Claim C9 does not hold as it is stated: on the html route a parser that rejects the
  markup raises an exception that only the handler catches, and on every route a file
  name with a lone surrogate makes \<open>filename.encode()\<close> raise when the identifier is
  built. In both cases the response has \<open>success = False\<close> and no document.
\<close>

theorem native_routes_without_document:
  "parse example_env example_b64decode (Some rejecting_parser) False None rejected_request =
     Returned \<lparr>response_success = False, document = None, error = Some ParserRejectedMarkup\<rparr> \<and>
   parse example_env example_b64decode None False None surrogate_request =
     Returned \<lparr>response_success = False, document = None, error = Some UnicodeEncodeError\<rparr>"
proof -
  have m: "u ''md'' \<in> {u ''md'', u ''txt'', u ''html''}"
    and h: "u ''html'' \<in> {u ''md'', u ''txt'', u ''html''}" by simp_all
  have ne: "u ''html'' \<noteq> u ''md''" "u ''html'' \<noteq> u ''txt''" by (simp_all add: u_def)
  have b1: "example_b64decode (fileContent rejected_request) = Inr [60, 33, 91, 120, 93, 62]"
    by (simp add: example_b64decode_def rejected_request_def u_def)
  have z1: "length [60, 33, 91, 120, 93, 62 :: 8 word] \<le> MAX_FILE_SIZE"
    by (simp add: MAX_FILE_SIZE_def)
  have g1: "get_format_from_filename (request_filename rejected_request) = Some (u ''html'')"
    by (simp add: get_format_from_filename_def rejected_request_def path_suffix_def path_name_def
        lower_def lower_char_def py_eval Let_def)
  have d1: "decode Replace [60, 33, 91, 120, 93, 62] = Inr (u ''<![x]>'')"
    by (simp add: decode_def utf8_next_def u_def)
  have r1: "parse_html_content example_env (Some rejecting_parser) (u ''<![x]>'')
              (request_filename rejected_request) = Inl ParserRejectedMarkup"
    by (rule parse_html_content_rejected) (simp add: rejecting_parser_def)
  have 1: "parse example_env example_b64decode (Some rejecting_parser) False None rejected_request =
     Returned \<lparr>response_success = False, document = None, error = Some ParserRejectedMarkup\<rparr>"
    unfolding parse_native
      [where ?b64decode = example_b64decode and ?request = rejected_request
         and ?file_content = "[60, 33, 91, 120, 93, 62]" and ?fmt = "u ''html''"
         and ?content_str = "u ''<![x]>''", OF b1 z1 g1 h d1]
    using ne r1 by simp
  have b2: "example_b64decode (fileContent surrogate_request) = Inr [255, 35, 32, 84]"
    by (simp add: example_b64decode_def surrogate_request_def)
  have z2: "length [255, 35, 32, 84 :: 8 word] \<le> MAX_FILE_SIZE"
    by (simp add: MAX_FILE_SIZE_def)
  have g2: "get_format_from_filename (request_filename surrogate_request) = Some (u ''md'')"
    by (simp add: get_format_from_filename_def surrogate_request_def path_suffix_def path_name_def
        lower_def lower_char_def py_eval Let_def)
  have d2: "decode Replace [255, 35, 32, 84] = Inr (65533 # u ''# T'')"
    by (simp add: decode_def utf8_next_def u_def)
  have c2: "encode (65533 # u ''# T'') = Inr [239, 191, 189, 35, 32, 84]"
    by (simp add: u_def encode_char_def)
  have f2: "encode (request_filename surrogate_request) = Inl UnicodeEncodeError"
    by (simp add: surrogate_request_def encode_char_def)
  have r2: "parse_markdown_content example_env (65533 # u ''# T'') (request_filename surrogate_request) =
            Inl UnicodeEncodeError"
    using c2 f2 by (rule parse_markdown_content_raises)
  have 2: "parse example_env example_b64decode None False None surrogate_request =
     Returned \<lparr>response_success = False, document = None, error = Some UnicodeEncodeError\<rparr>"
    unfolding parse_native
      [where ?b64decode = example_b64decode and ?request = surrogate_request
         and ?file_content = "[255, 35, 32, 84]" and ?fmt = "u ''md''"
         and ?content_str = "65533 # u ''# T''", OF b2 z2 g2 m d2]
    using r2 by simp
  from 1 2 show ?thesis by (rule conjI)
qed

text \<open>
  Claim C9, amended. On the routes to the native normalizers the bytes are decoded with
  \<open>errors='replace'\<close>, which gives a string for every byte sequence and never raises. For
  a payload within the size limit whose file name is detected as md, txt or html, the
  handler returns the document of the normalizer, except in two cases, where it returns a
  response with \<open>success = False\<close> and no document: on the html route when the parser is
  present and rejects the markup, and otherwise when the file name cannot be encoded.
\<close>

theorem native_routes_decode_and_return:
  assumes "b64decode (fileContent request) = Inr file_content"
    and "length file_content \<le> MAX_FILE_SIZE"
    and "get_format_from_filename (request_filename request) = Some fmt"
    and "fmt \<in> {u ''md'', u ''txt'', u ''html''}"
  shows "\<exists>content_str.
           decode Replace file_content = Inr content_str \<and>
           (if fmt = u ''html'' \<and> (\<exists>BeautifulSoup. bs = Some BeautifulSoup \<and> BeautifulSoup content_str = None)
            then parse e b64decode bs DOCLING_AVAILABLE conv request =
                   Returned \<lparr>response_success = False, document = None,
                             error = Some ParserRejectedMarkup\<rparr>
            else if encode (request_filename request) = Inl UnicodeEncodeError
            then parse e b64decode bs DOCLING_AVAILABLE conv request =
                   Returned \<lparr>response_success = False, document = None,
                             error = Some UnicodeEncodeError\<rparr>
            else \<exists>doc.
                   (if fmt = u ''md'' then parse_markdown_content e content_str (request_filename request)
                    else if fmt = u ''txt'' then parse_txt_content e content_str (request_filename request)
                    else parse_html_content e bs content_str (request_filename request)) = Inr doc \<and>
                   parse e b64decode bs DOCLING_AVAILABLE conv request =
                     Returned \<lparr>response_success = success doc, document = Some doc, error = None\<rparr>)"
proof -
  obtain content_str cb where d: "decode Replace file_content = Inr content_str"
    and c: "encode content_str = Inr cb"
    using decode_replace_encodable by blast
  let ?fname = "request_filename request"
  let ?norm = "if fmt = u ''md'' then parse_markdown_content e content_str ?fname
               else if fmt = u ''txt'' then parse_txt_content e content_str ?fname
               else parse_html_content e bs content_str ?fname"
  note p = parse_native
    [where ?b64decode = b64decode and ?request = request and ?file_content = file_content
       and ?fmt = fmt and ?content_str = content_str and ?e = e and ?bs = bs
       and ?DOCLING_AVAILABLE = DOCLING_AVAILABLE and ?conv = conv, OF assms d]
  have ne: "u ''html'' \<noteq> u ''md''" "u ''html'' \<noteq> u ''txt''" "u ''txt'' \<noteq> u ''md''"
    by (simp_all add: u_def)
  let ?rej = "fmt = u ''html'' \<and> (\<exists>BeautifulSoup. bs = Some BeautifulSoup \<and> BeautifulSoup content_str = None)"
  have fails: "parse e b64decode bs DOCLING_AVAILABLE conv request =
                 Returned \<lparr>response_success = False, document = None, error = Some err\<rparr>"
    if "?norm = Inl err" for err
    unfolding p by (simp only: that sum.case)
  have returns: "parse e b64decode bs DOCLING_AVAILABLE conv request =
                   Returned \<lparr>response_success = success doc, document = Some doc, error = None\<rparr>"
    if "?norm = Inr doc" for doc
    unfolding p by (simp only: that sum.case)
  have body: "if ?rej
            then parse e b64decode bs DOCLING_AVAILABLE conv request =
                   Returned \<lparr>response_success = False, document = None,
                             error = Some ParserRejectedMarkup\<rparr>
            else if encode ?fname = Inl UnicodeEncodeError
            then parse e b64decode bs DOCLING_AVAILABLE conv request =
                   Returned \<lparr>response_success = False, document = None,
                             error = Some UnicodeEncodeError\<rparr>
            else \<exists>doc. ?norm = Inr doc \<and>
                   parse e b64decode bs DOCLING_AVAILABLE conv request =
                     Returned \<lparr>response_success = success doc, document = Some doc, error = None\<rparr>"
  proof (cases ?rej)
    case True
    then obtain BeautifulSoup where "bs = Some BeautifulSoup" "BeautifulSoup content_str = None"
      and f: "fmt = u ''html''" by blast
    then have "parse_html_content e bs content_str ?fname = Inl ParserRejectedMarkup"
      using parse_html_content_rejected by simp
    with f ne have "?norm = Inl ParserRejectedMarkup" by simp
    then have "parse e b64decode bs DOCLING_AVAILABLE conv request =
                 Returned \<lparr>response_success = False, document = None,
                           error = Some ParserRejectedMarkup\<rparr>"
      by (rule fails)
    then show ?thesis by (subst if_P [OF True])
  next
    case False
    then have acc: "fmt = u ''html'' \<longrightarrow>
        bs = None \<or> (\<exists>BeautifulSoup soup. bs = Some BeautifulSoup \<and> BeautifulSoup content_str = Some soup)"
      by (cases bs) auto
    show ?thesis
    proof (cases "encode ?fname")
      case (Inl err)
      then have ee: "encode ?fname = Inl UnicodeEncodeError"
        using encode_raises by blast
      from assms(4) consider "fmt = u ''md''" | "fmt = u ''txt''" | "fmt = u ''html''" by blast
      then have "?norm = Inl UnicodeEncodeError"
      proof cases
        case 1
        then show ?thesis using parse_markdown_content_raises [OF c ee] by simp
      next
        case 2
        then show ?thesis using parse_txt_content_raises [OF c ee] ne by simp
      next
        case 3
        then show ?thesis using parse_html_content_raises [OF c ee] acc ne by simp
      qed
      then have "parse e b64decode bs DOCLING_AVAILABLE conv request =
                 Returned \<lparr>response_success = False, document = None,
                           error = Some UnicodeEncodeError\<rparr>"
        by (rule fails)
      then show ?thesis by (subst if_not_P [OF False], subst if_P [OF ee])
    next
      case (Inr fb)
      then have nee: "encode ?fname \<noteq> Inl UnicodeEncodeError" by simp
      from assms(4) consider "fmt = u ''md''" | "fmt = u ''txt''" | "fmt = u ''html''" by blast
      then obtain doc where n: "?norm = Inr doc"
      proof cases
        case 1
        then show ?thesis using parse_markdown_content_returns [OF c Inr, of e] that by auto
      next
        case 2
        then show ?thesis using parse_txt_content_returns [OF c Inr, of e] ne that by auto
      next
        case 3
        with acc have "bs = None \<or> (\<exists>BeautifulSoup soup. bs = Some BeautifulSoup \<and> BeautifulSoup content_str = Some soup)"
          by simp
        from parse_html_content_returns [OF c Inr this, of e] 3 ne that show ?thesis by auto
      qed
      have "\<exists>doc. ?norm = Inr doc \<and>
                   parse e b64decode bs DOCLING_AVAILABLE conv request =
                     Returned \<lparr>response_success = success doc, document = Some doc, error = None\<rparr>"
        by (rule exI [of _ doc]) (intro conjI n returns [OF n])
      then show ?thesis by (subst if_not_P [OF False], subst if_not_P [OF nee])
    qed
  qed
  from d body show ?thesis by blast
qed

theorem native_routes_decode_and_return_witness:
  "decode Replace [255, 35, 32, 84] = Inr (65533 # u ''# T'') \<and>
   decode Strict [255, 35, 32, 84] = Inl UnicodeDecodeError \<and>
   (\<exists>doc. parse example_env example_b64decode None False None example_request =
            Returned \<lparr>response_success = success doc, document = Some doc, error = None\<rparr>) \<and>
   (\<exists>doc. parse example_env example_b64decode (Some accepting_parser) False None table_request =
            Returned \<lparr>response_success = success doc, document = Some doc, error = None\<rparr>)"
proof -
  have 1: "decode Replace [255, 35, 32, 84] = Inr (65533 # u ''# T'')"
    by (simp add: decode_def utf8_next_def u_def)
  have 2: "decode Strict [255, 35, 32, 84] = Inl UnicodeDecodeError"
    by (simp add: decode_def utf8_next_def)
  have b: "example_b64decode (fileContent example_request) = Inr [255, 35, 32, 84]"
    by (simp add: example_b64decode_def example_request_def)
  have z: "length [255, 35, 32, 84 :: 8 word] \<le> MAX_FILE_SIZE"
    by (simp add: MAX_FILE_SIZE_def)
  have g: "get_format_from_filename (request_filename example_request) = Some (u ''md'')"
    by (simp add: get_format_from_filename_def example_request_def path_suffix_def path_name_def
        lower_def lower_char_def py_eval Let_def)
  have m: "u ''md'' \<in> {u ''md'', u ''txt'', u ''html''}"
    and h: "u ''html'' \<in> {u ''md'', u ''txt'', u ''html''}" by simp_all
  have ne: "u ''md'' \<noteq> u ''html''" by (simp add: u_def)
  have f: "encode (request_filename example_request) \<noteq> Inl UnicodeEncodeError"
    by (simp add: example_request_def u_def encode_char_def)
  from native_routes_decode_and_return
      [where ?b64decode = example_b64decode and ?request = example_request
         and ?file_content = "[255, 35, 32, 84]" and ?fmt = "u ''md''" and ?bs = None
         and ?e = example_env and ?DOCLING_AVAILABLE = False and ?conv = None,
       OF b z g m] ne f
  have 3: "\<exists>doc. parse example_env example_b64decode None False None example_request =
            Returned \<lparr>response_success = success doc, document = Some doc, error = None\<rparr>"
    by auto
  have b': "example_b64decode (fileContent table_request) = Inr (map of_nat example_html)"
    by (simp add: example_b64decode_def table_request_def u_def)
  have z': "length (map of_nat example_html :: 8 word list) \<le> MAX_FILE_SIZE"
    by (simp add: MAX_FILE_SIZE_def example_html_def u_def)
  have g': "get_format_from_filename (request_filename table_request) = Some (u ''html'')"
    by (simp add: get_format_from_filename_def table_request_def path_suffix_def path_name_def
        lower_def lower_char_def py_eval Let_def)
  have f': "encode (request_filename table_request) \<noteq> Inl UnicodeEncodeError"
    by (simp add: table_request_def u_def encode_char_def)
  from native_routes_decode_and_return
      [where ?b64decode = example_b64decode and ?request = table_request
         and ?file_content = "map of_nat example_html" and ?fmt = "u ''html''"
         and ?bs = "Some accepting_parser"
         and ?e = example_env and ?DOCLING_AVAILABLE = False and ?conv = None,
       OF b' z' g' h] f'
  have 4: "\<exists>doc. parse example_env example_b64decode (Some accepting_parser) False None table_request =
            Returned \<lparr>response_success = success doc, document = Some doc, error = None\<rparr>"
    by (auto simp add: accepting_parser_def)
  show ?thesis by (intro conjI 1 2 3 4)
qed

end
